theory Spec2Isabelle
  imports Complex_Main
begin

section \<open>Values of the host language\<close>

text \<open>
  A JavaScript \<open>number\<close> as far as the program inspects it: a finite value, one of the
  two infinities, or NaN. The program only compares risk values with the constant
  \<open>0.5\<close>, which is exactly representable, so the comparison on doubles agrees with the
  comparison on the reals they denote. Every comparison with NaN is false.
\<close>

datatype number = Finite real | PosInf | NegInf | NaN

fun num_gt :: "number \<Rightarrow> real \<Rightarrow> bool" where
  "num_gt (Finite x) c = (x > c)"
| "num_gt PosInf c = True"
| "num_gt NegInf c = False"
| "num_gt NaN c = False"

fun num_le :: "number \<Rightarrow> real \<Rightarrow> bool" where
  "num_le (Finite x) c = (x \<le> c)"
| "num_le PosInf c = False"
| "num_le NegInf c = True"
| "num_le NaN c = False"

text \<open>Decimal rendering of a non-negative integer, as a template literal prints it.\<close>

fun string_of_nat :: "nat \<Rightarrow> string" where
  "string_of_nat n =
     (if n < 10 then [''0123456789'' ! n]
      else string_of_nat (n div 10) @ [''0123456789'' ! (n mod 10)])"

declare string_of_nat.simps [simp del]

text \<open>
  Thrown values. \<open>AxiosError\<close> carries the optional response (status and the optional
  \<open>detail\<close> of its body), whether a request object is attached, and its message; it is an
  \<open>Error\<close> instance. \<open>JsError\<close> is any other \<open>Error\<close> instance with its message, and
  \<open>NonError\<close> a thrown value that is not an \<open>Error\<close>.
\<close>

record error_response =
  status :: nat
  detail :: "string option"

datatype thrown =
    AxiosError "error_response option" bool string
  | JsError string
  | NonError

fun isAxiosError :: "thrown \<Rightarrow> bool" where
  "isAxiosError (AxiosError resp req msg) = True"
| "isAxiosError _ = False"

text \<open>\<open>err instanceof Error ? Some err.message : None\<close>.\<close>

fun error_message :: "thrown \<Rightarrow> string option" where
  "error_message (AxiosError resp req msg) = Some msg"
| "error_message (JsError msg) = Some msg"
| "error_message NonError = None"

text \<open>The outcome of an awaited promise.\<close>

datatype 'a settled = Resolved 'a | Rejected thrown

section \<open>Data model\<close>

record prediction_response =
  ecg_risk :: "number option"
  pcg_risk :: "number option"
  combined_risk :: "number option"
  ecg_plot_data :: "(number \<times> number) list option"
  pcg_waveform_data :: "number list option"
  pcg_spectrogram :: "string option"
  ecg_heatmap :: "number list option"
  pcg_heatmap :: "number list option"

record jsfile =
  file_name :: string
  file_size :: nat

text \<open>
  What the program does to the world, in the order it does it. Console arguments are
  kept as the values passed.
\<close>

datatype logarg =
    S string
  | Thrown thrown
  | StatusMessage nat string
  | Response prediction_response

datatype effect =
    ConsoleLog "logarg list"
  | ConsoleError "logarg list"
  | HttpPost string "(string \<times> jsfile) list" nat
  | HttpGet string nat
  | RevokeObjectURL nat
  | CreateObjectURL jsfile nat

fun is_network :: "effect \<Rightarrow> bool" where
  "is_network (HttpPost url parts t) = True"
| "is_network (HttpGet url t) = True"
| "is_network _ = False"

section \<open>Risk labelling\<close>

definition getRiskColor :: "number option \<Rightarrow> string" where
  "getRiskColor risk =
     (case risk of
        None \<Rightarrow> ''text-gray-400''
      | Some r \<Rightarrow> if num_gt r (1/2) then ''text-red-400'' else ''text-emerald-400'')"

definition getRiskLabel :: "number option \<Rightarrow> string" where
  "getRiskLabel risk =
     (case risk of
        None \<Rightarrow> ''N/A''
      | Some r \<Rightarrow> if num_gt r (1/2) then ''HIGH RISK'' else ''LOW RISK'')"

text \<open>
  The risk text of the report (\<open>ecgRiskText\<close>, \<open>pcgRiskText\<close>, \<open>combinedRiskText\<close> of
  \<open>generateReport\<close>, three copies of one expression). The parameter \<open>percent\<close> stands for
  \<open>(risk * 100).toFixed(1)\<close>, floating-point formatting that is not modelled.
\<close>

definition riskText :: "(number \<Rightarrow> string) \<Rightarrow> number option \<Rightarrow> string" where
  "riskText percent risk =
     (case risk of
        None \<Rightarrow> ''Not Available''
      | Some r \<Rightarrow>
          percent r @ ''% ('' @ (if num_gt r (1/2) then ''HIGH RISK'' else ''LOW RISK'') @ '')'')"

section \<open>API client\<close>

definition API_BASE_URL :: "string option \<Rightarrow> string" where
  "API_BASE_URL env =
     (case env of
        None \<Rightarrow> ''http://localhost:8000''
      | Some u \<Rightarrow> if u = [] then ''http://localhost:8000'' else u)"

text \<open>
  The \<open>try\<close> block of \<open>uploadFiles\<close>. \<open>net\<close> is the outcome of the POST request, consulted
  only when the request is issued.
\<close>

definition uploadFiles_try ::
  "string \<Rightarrow> jsfile option \<Rightarrow> jsfile option \<Rightarrow> prediction_response settled
     \<Rightarrow> effect list \<times> (thrown + prediction_response)" where
  "uploadFiles_try base ecgFile pcgFile net =
     (if ecgFile = None \<and> pcgFile = None
      then ([], Inl (JsError ''At least one file (ECG or PCG) must be provided''))
      else
        let ecgPart = (case ecgFile of None \<Rightarrow> [] | Some f \<Rightarrow> [(''ecg_file'', f)]);
            ecgLog = (case ecgFile of None \<Rightarrow> []
                      | Some f \<Rightarrow> [ConsoleLog [S (''Uploading ECG file: '' @ file_name f @ '' (''
                                      @ string_of_nat (file_size f) @ '' bytes)'')]]);
            pcgPart = (case pcgFile of None \<Rightarrow> [] | Some f \<Rightarrow> [(''pcg_file'', f)]);
            pcgLog = (case pcgFile of None \<Rightarrow> []
                      | Some f \<Rightarrow> [ConsoleLog [S (''Uploading PCG file: '' @ file_name f @ '' (''
                                      @ string_of_nat (file_size f) @ '' bytes)'')]]);
            sent = ecgLog @ pcgLog @ [HttpPost (base @ ''/predict'') (ecgPart @ pcgPart) 300000]
        in case net of
             Resolved r \<Rightarrow> (sent @ [ConsoleLog [S ''Prediction successful:'', Response r]], Inr r)
           | Rejected e \<Rightarrow> (sent, Inl e))"

text \<open>The \<open>catch\<close> block of \<open>uploadFiles\<close>: what is logged and what is thrown on.\<close>

definition uploadFiles_catch :: "thrown \<Rightarrow> effect list \<times> thrown" where
  "uploadFiles_catch err =
     (case err of
        AxiosError (Some resp) req msg \<Rightarrow>
          let errorMessage =
                (case detail resp of
                   None \<Rightarrow> ''Server error occurred''
                 | Some d \<Rightarrow> if d = [] then ''Server error occurred'' else d)
          in ([ConsoleError [S ''API Error:'', StatusMessage (status resp) errorMessage]],
              JsError (errorMessage @ '' (Status: '' @ string_of_nat (status resp) @ '')''))
      | AxiosError None req msg \<Rightarrow>
          if req
          then ([ConsoleError [S ''Network Error: No response from server'']],
                JsError ''Network error: Unable to reach the server. Please check if the backend is running.'')
          else ([ConsoleError [S ''Upload Error:'', S msg]], err)
      | JsError msg \<Rightarrow> ([ConsoleError [S ''Upload Error:'', S msg]], err)
      | NonError \<Rightarrow>
          ([ConsoleError [S ''Unknown error:'', Thrown err]],
           JsError ''An unexpected error occurred during file upload''))"

definition uploadFiles ::
  "string \<Rightarrow> jsfile option \<Rightarrow> jsfile option \<Rightarrow> prediction_response settled
     \<Rightarrow> effect list \<times> (thrown + prediction_response)" where
  "uploadFiles base ecgFile pcgFile net =
     (case uploadFiles_try base ecgFile pcgFile net of
        (fx, Inr r) \<Rightarrow> (fx, Inr r)
      | (fx, Inl e) \<Rightarrow> (case uploadFiles_catch e of (fx', e') \<Rightarrow> (fx @ fx', Inl e')))"

text \<open>
  \<open>checkHealth\<close>: the awaited GET either resolves with a response, of which only the
  status is read, or rejects; the rejection is caught.
\<close>

definition checkHealth_try :: "nat settled \<Rightarrow> thrown + bool" where
  "checkHealth_try net =
     (case net of Resolved st \<Rightarrow> Inr (st = 200) | Rejected e \<Rightarrow> Inl e)"

definition checkHealth :: "string \<Rightarrow> nat settled \<Rightarrow> effect list \<times> (thrown + bool)" where
  "checkHealth base net =
     (case checkHealth_try net of
        Inr b \<Rightarrow> ([HttpGet (base @ ''/health'') 5000], Inr b)
      | Inl e \<Rightarrow> ([HttpGet (base @ ''/health'') 5000,
                   ConsoleError [S ''Health check failed:'', Thrown e]], Inr False))"

section \<open>CSV preview\<close>

text \<open>
  File text is a sequence of code units, modelled as \<open>char\<close>. \<open>String.prototype.trim\<close>
  removes white space and line terminators from both ends; in the range of \<open>char\<close>
  these are TAB, LF, VT, FF, CR, SPACE and NBSP.
\<close>

definition js_whitespace :: "char \<Rightarrow> bool" where
  "js_whitespace c = (of_char c \<in> {9::nat, 10, 11, 12, 13, 32, 160})"

definition trim :: "string \<Rightarrow> string" where
  "trim s = rev (dropWhile js_whitespace (rev (dropWhile js_whitespace s)))"

text \<open>
  \<open>s.split(c)\<close> for a one-character separator: the pieces between the occurrences of
  \<open>c\<close>; the empty string gives one empty piece.
\<close>

fun split_on :: "char \<Rightarrow> string \<Rightarrow> string list" where
  "split_on c [] = [[]]"
| "split_on c (x # xs) =
     (if x = c then [] # split_on c xs
      else (case split_on c xs of
              [] \<Rightarrow> [[x]]
            | r # rs \<Rightarrow> (x # r) # rs))"

text \<open>\<open>text.trim().split("\n").map((row) => row.split(","))\<close>\<close>

definition csv_rows :: "string \<Rightarrow> string list list" where
  "csv_rows text = map (split_on CHR '','') (split_on CHR 0x0A (trim text))"

section \<open>Upload/result controller\<close>

record state =
  ecgFile :: "jsfile option"
  pcgFile :: "jsfile option"
  result :: "prediction_response option"
  loading :: bool
  error :: "string option"
  activeTab :: nat
  isPlaying :: bool
  pcgAudioUrl :: "nat option"
  showCsvModal :: bool
  csvData :: "string list list option"
  csvLoading :: bool
  reportLoading :: bool

definition initial_state :: state where
  "initial_state =
     \<lparr>ecgFile = None, pcgFile = None, result = None, loading = False, error = None,
      activeTab = 0, isPlaying = False, pcgAudioUrl = None, showCsvModal = False,
      csvData = None, csvLoading = False, reportLoading = False\<rparr>"

text \<open>
  The browser's object-URL store. \<open>URL.createObjectURL\<close> returns a URL it has not
  returned before, here the next number; \<open>live_urls\<close> are the URLs created and not yet
  revoked.
\<close>

record browser =
  next_url :: nat
  live_urls :: "nat set"

definition initial_browser :: browser where
  "initial_browser = \<lparr>next_url = 0, live_urls = {}\<rparr>"

definition revokeObjectURL :: "nat \<Rightarrow> browser \<Rightarrow> browser" where
  "revokeObjectURL u b = b\<lparr>live_urls := live_urls b - {u}\<rparr>"

definition createObjectURL :: "browser \<Rightarrow> nat \<times> browser" where
  "createObjectURL b =
     (next_url b, b\<lparr>next_url := Suc (next_url b), live_urls := insert (next_url b) (live_urls b)\<rparr>)"

text \<open>
  The change event's \<open>e.target.files\<close> is \<open>null\<close> or a list; the handlers act only when
  its first entry exists.
\<close>

fun first_file :: "jsfile list option \<Rightarrow> jsfile option" where
  "first_file None = None"
| "first_file (Some []) = None"
| "first_file (Some (f # fs)) = Some f"

definition handleEcgChange :: "jsfile list option \<Rightarrow> state \<Rightarrow> state" where
  "handleEcgChange files s =
     (case first_file files of
        None \<Rightarrow> s
      | Some f \<Rightarrow> s\<lparr>ecgFile := Some f, error := None, csvData := None\<rparr>)"

definition handlePcgChange ::
  "jsfile list option \<Rightarrow> state \<times> browser \<Rightarrow> (state \<times> browser) \<times> effect list" where
  "handlePcgChange files sb =
     (case sb of (s, b) \<Rightarrow>
        (case first_file files of
           None \<Rightarrow> ((s, b), [])
         | Some f \<Rightarrow>
             let (b1, fx1) = (case pcgAudioUrl s of
                                None \<Rightarrow> (b, [])
                              | Some u \<Rightarrow> (revokeObjectURL u b, [RevokeObjectURL u]));
                 (audioUrl, b2) = createObjectURL b1
             in ((s\<lparr>pcgFile := Some f, error := None, pcgAudioUrl := Some audioUrl,
                     isPlaying := False\<rparr>, b2),
                 fx1 @ [CreateObjectURL f audioUrl])))"

text \<open>
  \<open>handleViewCsvData\<close>; \<open>read\<close> is the outcome of \<open>ecgFile.text()\<close>.
\<close>

definition handleViewCsvData :: "string settled \<Rightarrow> state \<Rightarrow> state" where
  "handleViewCsvData read s =
     (if ecgFile s = None then s
      else (case read of
              Resolved text \<Rightarrow>
                s\<lparr>csvData := Some (csv_rows text), showCsvModal := True, csvLoading := False\<rparr>
            | Rejected e \<Rightarrow>
                s\<lparr>error := Some ''Failed to parse CSV file'', csvLoading := False\<rparr>))"

text \<open>
  The CSV modal: present when \<open>showCsvModal && csvData\<close>; its header shows the row
  count and the length of the first row (0 without one), its body the first 200
  rows, and a note with the total appears when there are more.
\<close>

record csv_modal =
  header_rows :: nat
  header_columns :: nat
  body :: "string list list"
  more_note :: "string option"

definition render_csv_modal :: "state \<Rightarrow> csv_modal option" where
  "render_csv_modal s =
     (case csvData s of
        None \<Rightarrow> None
      | Some rows \<Rightarrow>
          if showCsvModal s
          then Some \<lparr>header_rows = length rows,
                     header_columns = (case rows of [] \<Rightarrow> 0 | r # rs \<Rightarrow> length r),
                     body = take 200 rows,
                     more_note = (if length rows > 200
                             then Some (''Showing first 200 rows of ''
                                        @ string_of_nat (length rows) @ '' total rows'')
                             else None)\<rparr>
          else None)"

text \<open>
  \<open>handleAnalyze\<close>, in its two synchronous parts: up to the \<open>await\<close>, and from the
  settling of \<open>uploadFiles\<close> on, which applies to the state current at that moment.
\<close>

definition handleAnalyze_begin :: "state \<Rightarrow> state \<times> (jsfile option \<times> jsfile option) option" where
  "handleAnalyze_begin s =
     (if ecgFile s = None \<and> pcgFile s = None
      then (s\<lparr>error := Some ''Please upload at least one file (ECG or PCG)''\<rparr>, None)
      else (s\<lparr>loading := True, error := None\<rparr>, Some (ecgFile s, pcgFile s)))"

definition handleAnalyze_resume ::
  "thrown + prediction_response \<Rightarrow> state \<Rightarrow> state \<times> effect list" where
  "handleAnalyze_resume r s =
     (case r of
        Inr response \<Rightarrow> (s\<lparr>result := Some response, activeTab := 0, loading := False\<rparr>, [])
      | Inl err \<Rightarrow>
          (s\<lparr>error := Some (case error_message err of
                               Some m \<Rightarrow> m
                             | None \<Rightarrow> ''An error occurred during analysis''),
             loading := False\<rparr>,
           [ConsoleError [S ''Analysis error:'', Thrown err]]))"

text \<open>A run of \<open>handleAnalyze\<close> with no other event in between.\<close>

definition handleAnalyze ::
  "string \<Rightarrow> prediction_response settled \<Rightarrow> state \<Rightarrow> state \<times> effect list" where
  "handleAnalyze base net s =
     (case handleAnalyze_begin s of
        (s1, None) \<Rightarrow> (s1, [])
      | (s1, Some (e, p)) \<Rightarrow>
          (case uploadFiles base e p net of (fx, r) \<Rightarrow>
             (case handleAnalyze_resume r s1 of (s2, fx') \<Rightarrow> (s2, fx @ fx'))))"

section \<open>Report generator\<close>

text \<open>
  Arithmetic of the layout, on the values of \<open>number\<close>: the IEEE rules for infinities
  and NaN; rounding and the sign of zero are not modelled.
\<close>

fun num_add :: "number \<Rightarrow> number \<Rightarrow> number" where
  "num_add NaN b = NaN"
| "num_add a NaN = NaN"
| "num_add (Finite a) (Finite b) = Finite (a + b)"
| "num_add PosInf NegInf = NaN"
| "num_add NegInf PosInf = NaN"
| "num_add PosInf b = PosInf"
| "num_add a PosInf = PosInf"
| "num_add NegInf b = NegInf"
| "num_add a NegInf = NegInf"

fun num_neg :: "number \<Rightarrow> number" where
  "num_neg (Finite a) = Finite (- a)"
| "num_neg PosInf = NegInf"
| "num_neg NegInf = PosInf"
| "num_neg NaN = NaN"

definition num_sub :: "number \<Rightarrow> number \<Rightarrow> number" where
  "num_sub a b = num_add a (num_neg b)"

fun num_mul :: "number \<Rightarrow> number \<Rightarrow> number" where
  "num_mul NaN b = NaN"
| "num_mul a NaN = NaN"
| "num_mul (Finite a) (Finite b) = Finite (a * b)"
| "num_mul (Finite a) PosInf = (if a = 0 then NaN else if a > 0 then PosInf else NegInf)"
| "num_mul (Finite a) NegInf = (if a = 0 then NaN else if a > 0 then NegInf else PosInf)"
| "num_mul PosInf (Finite b) = (if b = 0 then NaN else if b > 0 then PosInf else NegInf)"
| "num_mul NegInf (Finite b) = (if b = 0 then NaN else if b > 0 then NegInf else PosInf)"
| "num_mul PosInf PosInf = PosInf"
| "num_mul PosInf NegInf = NegInf"
| "num_mul NegInf PosInf = NegInf"
| "num_mul NegInf NegInf = PosInf"

fun num_div :: "number \<Rightarrow> number \<Rightarrow> number" where
  "num_div NaN b = NaN"
| "num_div a NaN = NaN"
| "num_div (Finite a) (Finite b) =
     (if b \<noteq> 0 then Finite (a / b)
      else if a > 0 then PosInf else if a < 0 then NegInf else NaN)"
| "num_div (Finite a) b = Finite 0"
| "num_div PosInf (Finite b) = (if b \<ge> 0 then PosInf else NegInf)"
| "num_div NegInf (Finite b) = (if b \<ge> 0 then NegInf else PosInf)"
| "num_div a b = NaN"

text \<open>
  The document under construction, as far as the program drives jsPDF: the pages with
  what has been drawn on each, in drawing order, the current page (numbered from 1)
  and the current font size, text colour, font weight and draw colour. A new document
  has one empty page, font size 16, black colours and the normal weight.
\<close>

type_synonym colour = "nat \<times> nat \<times> nat"

datatype align = AlignLeft | AlignCenter | AlignRight

datatype item =
    TextItem string number number align nat colour bool
  | LineItem number number number number colour
  | ImageItem string number number number number

record pdf =
  pages :: "item list list"
  page :: nat
  fontSize :: nat
  textColor :: colour
  fontBold :: bool
  drawColor :: colour

definition new_jsPDF :: pdf where
  "new_jsPDF = \<lparr>pages = [[]], page = 1, fontSize = 16, textColor = (0, 0, 0),
                 fontBold = False, drawColor = (0, 0, 0)\<rparr>"

definition draw :: "item \<Rightarrow> pdf \<Rightarrow> pdf" where
  "draw it p =
     (if 1 \<le> page p \<and> page p \<le> length (pages p)
      then p\<lparr>pages := (pages p)[page p - 1 := pages p ! (page p - 1) @ [it]]\<rparr>
      else p)"

definition pdf_text :: "string \<Rightarrow> number \<Rightarrow> number \<Rightarrow> align \<Rightarrow> pdf \<Rightarrow> pdf" where
  "pdf_text txt x y al p = draw (TextItem txt x y al (fontSize p) (textColor p) (fontBold p)) p"

definition pdf_line :: "number \<Rightarrow> number \<Rightarrow> number \<Rightarrow> number \<Rightarrow> pdf \<Rightarrow> pdf" where
  "pdf_line x1 y1 x2 y2 p = draw (LineItem x1 y1 x2 y2 (drawColor p)) p"

definition addImage :: "string \<Rightarrow> number \<Rightarrow> number \<Rightarrow> number \<Rightarrow> number \<Rightarrow> pdf \<Rightarrow> pdf" where
  "addImage img x y w h p = draw (ImageItem img x y w h) p"

definition addPage :: "pdf \<Rightarrow> pdf" where
  "addPage p = p\<lparr>pages := pages p @ [[]], page := Suc (length (pages p))\<rparr>"

definition setPage :: "nat \<Rightarrow> pdf \<Rightarrow> pdf" where
  "setPage n p = (if 0 < n \<and> n \<le> length (pages p) then p\<lparr>page := n\<rparr> else p)"

definition getNumberOfPages :: "pdf \<Rightarrow> nat" where
  "getNumberOfPages p = length (pages p)"

text \<open>
  What the report takes from its surroundings: the page width, the width of a text in
  the current font, the rendering \<open>(risk * 100).toFixed(1)\<close>, the date strings, and
  whether \<open>addImage\<close> throws for an image of a given width and height.
\<close>

record report_env =
  pageWidth :: number
  getTextWidth :: "bool \<Rightarrow> nat \<Rightarrow> string \<Rightarrow> number"
  formatPercent :: "number \<Rightarrow> string"
  localeDate :: string
  localeTime :: string
  isoDate :: string
  addImage_error :: "string \<Rightarrow> number \<Rightarrow> number \<Rightarrow> thrown option"

definition margin :: number where
  "margin = Finite 15"

definition emerald :: colour where
  "emerald = (16, 185, 129)"

text \<open>The layout state of \<open>generateReport\<close>: the document and \<open>yPos\<close>.\<close>

definition addSectionHeader :: "string \<Rightarrow> pdf \<times> number \<Rightarrow> pdf \<times> number" where
  "addSectionHeader txt st =
     (case st of (p, yPos) \<Rightarrow>
        let p1 = p\<lparr>fontSize := 14\<rparr>;
            p2 = p1\<lparr>textColor := emerald\<rparr>;
            p3 = pdf_text txt margin yPos AlignLeft p2;
            p4 = p3\<lparr>textColor := (0, 0, 0)\<rparr>;
            p5 = p4\<lparr>fontSize := 11\<rparr>
        in (p5, num_add yPos (Finite 8)))"

definition addText :: "report_env \<Rightarrow> string \<Rightarrow> string \<Rightarrow> pdf \<times> number \<Rightarrow> pdf \<times> number" where
  "addText env label val st =
     (case st of (p, yPos) \<Rightarrow>
        let indent = Finite 0;
            p1 = p\<lparr>fontBold := True\<rparr>;
            p2 = pdf_text (label @ '': '') (num_add margin indent) yPos AlignLeft p1;
            labelWidth = getTextWidth env (fontBold p2) (fontSize p2) (label @ '': '');
            p3 = p2\<lparr>fontBold := False\<rparr>;
            p4 = pdf_text val (num_add (num_add margin indent) labelWidth) yPos AlignLeft p3
        in (p4, num_add yPos (Finite 6)))"

text \<open>Title, subtitle, date line and divider.\<close>

definition report_heading :: "report_env \<Rightarrow> pdf \<times> number \<Rightarrow> pdf \<times> number" where
  "report_heading env st =
     (case st of (p, yPos) \<Rightarrow>
        let p1 = p\<lparr>fontSize := 22\<rparr>;
            p2 = p1\<lparr>textColor := emerald\<rparr>;
            p3 = pdf_text ''SmartHeart Analysis Report''
                   (num_div (pageWidth env) (Finite 2)) yPos AlignCenter p2;
            y1 = num_add yPos (Finite 10);
            p4 = p3\<lparr>fontSize := 10\<rparr>;
            p5 = p4\<lparr>textColor := (100, 100, 100)\<rparr>;
            p6 = pdf_text ''Bimodal Deep Learning for ECG and PCG-Based Cardiac Monitoring''
                   (num_div (pageWidth env) (Finite 2)) y1 AlignCenter p5;
            y2 = num_add y1 (Finite 15);
            p7 = p6\<lparr>fontSize := 10\<rparr>;
            p8 = p7\<lparr>textColor := (0, 0, 0)\<rparr>;
            p9 = pdf_text (''Report Generated: '' @ localeDate env @ '' at '' @ localeTime env)
                   margin y2 AlignLeft p8;
            y3 = num_add y2 (Finite 15);
            p10 = p9\<lparr>drawColor := (200, 200, 200)\<rparr>;
            p11 = pdf_line margin (num_sub y3 (Finite 5))
                    (num_sub (pageWidth env) margin) (num_sub y3 (Finite 5)) p10
        in (p11, y3))"

definition advance :: "real \<Rightarrow> pdf \<times> number \<Rightarrow> pdf \<times> number" where
  "advance d st = (case st of (p, yPos) \<Rightarrow> (p, num_add yPos (Finite d)))"

definition report_risks ::
  "report_env \<Rightarrow> prediction_response \<Rightarrow> pdf \<times> number \<Rightarrow> pdf \<times> number" where
  "report_risks env res st =
     (let st1 = addSectionHeader ''Risk Assessment Results'' st;
          st2 = advance 2 st1;
          st3 = addText env ''ECG Risk'' (riskText (formatPercent env) (ecg_risk res)) st2;
          st4 = addText env ''PCG Risk'' (riskText (formatPercent env) (pcg_risk res)) st3;
          st5 = addText env ''Combined Risk'' (riskText (formatPercent env) (combined_risk res)) st4
      in advance 10 st5)"

definition report_files ::
  "report_env \<Rightarrow> jsfile option \<Rightarrow> jsfile option \<Rightarrow> pdf \<times> number \<Rightarrow> pdf \<times> number" where
  "report_files env ecg pcg st =
     (let st1 = addSectionHeader ''Files Analyzed'' st;
          st2 = advance 2 st1;
          st3 = (case ecg of None \<Rightarrow> st2 | Some f \<Rightarrow> addText env ''ECG File'' (file_name f) st2);
          st4 = (case pcg of None \<Rightarrow> st3 | Some f \<Rightarrow> addText env ''PCG File'' (file_name f) st3)
      in advance 10 st4)"

definition imgWidth :: "report_env \<Rightarrow> number" where
  "imgWidth env = num_sub (pageWidth env) (num_mul (Finite 2) margin)"

text \<open>\<open>(canvas.height * imgWidth) / canvas.width\<close>\<close>

definition imgHeight :: "report_env \<Rightarrow> nat \<Rightarrow> nat \<Rightarrow> number" where
  "imgHeight env w h = num_div (num_mul (Finite (real h)) (imgWidth env)) (Finite (real w))"

text \<open>
  The part the four chart blocks share once the image and its height are known: the
  page break, the section header and the image. When \<open>addImage\<close> throws, the header
  is already written and \<open>yPos\<close> is not advanced past the image.
\<close>

definition place_image ::
  "report_env \<Rightarrow> string \<Rightarrow> string \<Rightarrow> number \<Rightarrow> pdf \<times> number
     \<Rightarrow> (pdf \<times> number) \<times> thrown option" where
  "place_image env title img height st =
     (case st of (p, yPos) \<Rightarrow>
        let st1 = (if num_gt (num_add yPos height) 280 then (addPage p, Finite 20) else (p, yPos));
            st2 = addSectionHeader title st1
        in (case addImage_error env img (imgWidth env) height of
              Some err \<Rightarrow> (st2, Some err)
            | None \<Rightarrow>
                ((addImage img margin (snd st2) (imgWidth env) height (fst st2),
                  num_add (snd st2) (num_add height (Finite 10))), None)))"

text \<open>
  The outcome of \<open>html2canvas\<close> followed by \<open>toDataURL\<close>: a failure, or the image data
  with the width and height of the canvas.
\<close>

datatype capture = CaptureFailed thrown | Canvas string nat nat

definition capture_section ::
  "report_env \<Rightarrow> string \<Rightarrow> string \<Rightarrow> capture \<Rightarrow> (pdf \<times> number) \<times> effect list
     \<Rightarrow> (pdf \<times> number) \<times> effect list" where
  "capture_section env title failure cap stl =
     (case stl of (st, lg) \<Rightarrow>
        (case cap of
           CaptureFailed err \<Rightarrow> (st, lg @ [ConsoleError [S failure, Thrown err]])
         | Canvas imgData w h \<Rightarrow>
             (case place_image env title imgData (imgHeight env w h) st of
                (st', None) \<Rightarrow> (st', lg)
              | (st', Some err) \<Rightarrow> (st', lg @ [ConsoleError [S failure, Thrown err]]))))"

definition spectrogram_section ::
  "report_env \<Rightarrow> string \<Rightarrow> (pdf \<times> number) \<times> effect list \<Rightarrow> (pdf \<times> number) \<times> effect list" where
  "spectrogram_section env img stl =
     (case stl of (st, lg) \<Rightarrow>
        (case place_image env ''PCG Spectrogram'' img (Finite 60) st of
           (st', None) \<Rightarrow> (st', lg)
         | (st', Some err) \<Rightarrow> (st', lg @ [ConsoleError [S ''Failed to add spectrogram:'', Thrown err]])))"

text \<open>
  Which chart regions are mounted, from the JSX: the risk chart whenever there is a
  result, the ECG chart on tab 0 with ECG plot data, the PCG chart on tab 1 with PCG
  waveform data.
\<close>

datatype chart = RiskChart | EcgChart | PcgChart

fun ref_current :: "state \<Rightarrow> chart \<Rightarrow> bool" where
  "ref_current s RiskChart = (result s \<noteq> None)"
| "ref_current s EcgChart =
     (case result s of None \<Rightarrow> False | Some r \<Rightarrow> activeTab s = 0 \<and> ecg_plot_data r \<noteq> None)"
| "ref_current s PcgChart =
     (case result s of None \<Rightarrow> False | Some r \<Rightarrow> activeTab s = 1 \<and> pcg_waveform_data r \<noteq> None)"

text \<open>The footer loop: \<open>for (let i = 1; i <= pageCount; i++)\<close>.\<close>

definition stamp_footer :: "report_env \<Rightarrow> nat \<Rightarrow> nat \<Rightarrow> pdf \<Rightarrow> pdf" where
  "stamp_footer env i pageCount p =
     (let p1 = setPage i p;
          p2 = p1\<lparr>fontSize := 8\<rparr>;
          p3 = p2\<lparr>textColor := (150, 150, 150)\<rparr>;
          p4 = pdf_text ''SmartHeart - AI-powered multimodal cardiovascular risk assessment system | For research and educational purposes only''
                 (num_div (pageWidth env) (Finite 2)) (Finite 290) AlignCenter p3
      in pdf_text (''Page '' @ string_of_nat i @ '' of '' @ string_of_nat pageCount)
           (num_sub (pageWidth env) margin) (Finite 290) AlignRight p4)"

function footer_loop :: "report_env \<Rightarrow> nat \<Rightarrow> nat \<Rightarrow> pdf \<Rightarrow> pdf" where
  "footer_loop env i pageCount p =
     (if i \<le> pageCount then footer_loop env (Suc i) pageCount (stamp_footer env i pageCount p)
      else p)"
  by pat_completeness auto
termination
  by (relation "measure (\<lambda>(env, i, pageCount, p). Suc pageCount - i)") auto

declare footer_loop.simps [simp del]

text \<open>
  \<open>generateReport\<close>. \<open>snap\<close> gives the outcome of capturing a chart region, consulted
  only for the regions that are captured. The result is the state afterwards, the
  console output, and the saved file (name and document), if any.
\<close>

definition generateReport ::
  "report_env \<Rightarrow> (chart \<Rightarrow> capture) \<Rightarrow> state
     \<Rightarrow> state \<times> effect list \<times> (string \<times> pdf) option" where
  "generateReport env snap s =
     (case result s of
        None \<Rightarrow> (s, [], None)
      | Some res \<Rightarrow>
          let st0 = (new_jsPDF, Finite 20);
              st1 = report_heading env st0;
              st2 = report_risks env res st1;
              st3 = report_files env (ecgFile s) (pcgFile s) st2;
              c0 = (st3, []);
              c1 = (if ref_current s RiskChart
                    then capture_section env ''Risk Assessment Overview''
                           ''Failed to capture risk chart:'' (snap RiskChart) c0
                    else c0);
              c2 = (if ecg_plot_data res \<noteq> None \<and> ref_current s EcgChart
                    then capture_section env ''ECG Signal Visualization''
                           ''Failed to capture ECG chart:'' (snap EcgChart) c1
                    else c1);
              c3 = (if pcg_waveform_data res \<noteq> None \<and> ref_current s PcgChart
                    then capture_section env ''PCG Waveform Visualization''
                           ''Failed to capture PCG chart:'' (snap PcgChart) c2
                    else c2);
              c4 = (case pcg_spectrogram res of
                      None \<Rightarrow> c3
                    | Some img \<Rightarrow> if img = [] then c3 else spectrogram_section env img c3);
              doc = fst (fst c4);
              pageCount = getNumberOfPages doc;
              final = footer_loop env 1 pageCount doc
          in (s\<lparr>reportLoading := False\<rparr>, snd c4,
              Some (''SmartHeart_Report_'' @ isoDate env @ ''.pdf'', final)))"

text \<open>What a document holds, for stating properties of it.\<close>

definition items_of :: "pdf \<Rightarrow> item list" where
  "items_of p = concat (pages p)"

fun is_section_header :: "item \<Rightarrow> bool" where
  "is_section_header (TextItem txt x y al sz col bold) = (sz = 14)"
| "is_section_header _ = False"

fun is_image :: "item \<Rightarrow> bool" where
  "is_image (ImageItem img x y w h) = True"
| "is_image _ = False"

fun item_text :: "item \<Rightarrow> string" where
  "item_text (TextItem txt x y al sz col bold) = txt"
| "item_text _ = []"

fun item_image :: "item \<Rightarrow> string" where
  "item_image (ImageItem img x y w h) = img"
| "item_image _ = []"

fun is_text :: "item \<Rightarrow> bool" where
  "is_text (TextItem txt x y al sz col bold) = True"
| "is_text _ = False"

definition texts :: "pdf \<Rightarrow> string list" where
  "texts p = map item_text (filter is_text (items_of p))"

definition section_headers :: "pdf \<Rightarrow> string list" where
  "section_headers p = map item_text (filter is_section_header (items_of p))"

definition images :: "pdf \<Rightarrow> item list" where
  "images p = filter is_image (items_of p)"

text \<open>A concrete environment, response and state for evaluating the report.\<close>

definition example_env :: report_env where
  "example_env =
     \<lparr>pageWidth = Finite 210,
      getTextWidth = (\<lambda>bold sz t. Finite (2 * real (length t))),
      formatPercent = (\<lambda>r. ''90.0''),
      localeDate = ''11/3/2026'', localeTime = ''10:00:00 AM'', isoDate = ''2026-11-03'',
      addImage_error = (\<lambda>img w h. None)\<rparr>"

definition example_response :: prediction_response where
  "example_response =
     \<lparr>ecg_risk = Some (Finite (9/10)), pcg_risk = None, combined_risk = Some (Finite (9/10)),
      ecg_plot_data = None, pcg_waveform_data = None, pcg_spectrogram = None,
      ecg_heatmap = None, pcg_heatmap = None\<rparr>"

definition example_state :: "prediction_response \<Rightarrow> state" where
  "example_state res =
     initial_state\<lparr>ecgFile := Some \<lparr>file_name = ''ecg.csv'', file_size = 11\<rparr>,
                    result := Some res\<rparr>"

text \<open>The two footer texts of page \<open>i\<close> of \<open>pageCount\<close>.\<close>

definition footer_items :: "report_env \<Rightarrow> bool \<Rightarrow> nat \<Rightarrow> nat \<Rightarrow> item list" where
  "footer_items env bold i pageCount =
     [TextItem ''SmartHeart - AI-powered multimodal cardiovascular risk assessment system | For research and educational purposes only''
        (num_div (pageWidth env) (Finite 2)) (Finite 290) AlignCenter 8 (150, 150, 150) bold,
      TextItem (''Page '' @ string_of_nat i @ '' of '' @ string_of_nat pageCount)
        (num_sub (pageWidth env) margin) (Finite 290) AlignRight 8 (150, 150, 150) bold]"

text \<open>While the layout runs, the current page is the last one.\<close>

definition layout_ok :: "pdf \<Rightarrow> bool" where
  "layout_ok p = (page p = length (pages p) \<and> pages p \<noteq> [])"

section \<open>Reference notions used in the properties\<close>

text \<open>\<open>Array.prototype.join\<close> with a one-character separator, the inverse of \<open>split\<close>.\<close>

fun join_with :: "char \<Rightarrow> string list \<Rightarrow> string" where
  "join_with c [] = []"
| "join_with c [x] = x"
| "join_with c (x # y # ys) = x @ c # join_with c (y # ys)"

text \<open>
  The table as the specification words it: the text split into newline-separated rows
  and comma-delimited fields, with nothing removed first.
\<close>

definition raw_split :: "string \<Rightarrow> string list list" where
  "raw_split text = map (split_on CHR '','') (split_on CHR 0x0A text)"

text \<open>
  Consecutive PCG selections, one file each; the component re-renders between two
  change events, so each handler call sees the state the previous one left.
\<close>

fun select_pcg_files :: "jsfile list \<Rightarrow> state \<times> browser \<Rightarrow> (state \<times> browser) \<times> effect list" where
  "select_pcg_files [] sb = (sb, [])"
| "select_pcg_files (f # fs) sb =
     (case handlePcgChange (Some [f]) sb of (sb1, fx) \<Rightarrow>
        (case select_pcg_files fs sb1 of (sb2, fx') \<Rightarrow> (sb2, fx @ fx')))"

section \<open>Properties\<close>

subsection \<open>Local validation\<close>

text \<open>
  C1. With no ECG file and no PCG file, \<open>handleAnalyze\<close> only sets the error
  "Please upload at least one file (ECG or PCG)" and \<open>uploadFiles\<close> throws
  "At least one file (ECG or PCG) must be provided"; neither issues a network request,
  whatever the network would have answered.
\<close>

theorem no_files_rejected_locally:
  assumes "ecgFile s = None" and "pcgFile s = None"
  shows "handleAnalyze base net s =
           (s\<lparr>error := Some ''Please upload at least one file (ECG or PCG)''\<rparr>, [])
       \<and> uploadFiles base (ecgFile s) (pcgFile s) net =
           ([ConsoleError [S ''Upload Error:'', S ''At least one file (ECG or PCG) must be provided'']],
            Inl (JsError ''At least one file (ECG or PCG) must be provided''))
       \<and> filter is_network (snd (handleAnalyze base net s)) = []
       \<and> filter is_network (fst (uploadFiles base (ecgFile s) (pcgFile s) net)) = []"
  using assms
  by (simp add: handleAnalyze_def handleAnalyze_begin_def uploadFiles_def uploadFiles_try_def
      uploadFiles_catch_def)

theorem no_files_rejected_locally_witness:
  "error (fst (handleAnalyze ''http://localhost:8000'' (Rejected NonError) initial_state))
     = Some ''Please upload at least one file (ECG or PCG)''
   \<and> snd (handleAnalyze ''http://localhost:8000'' (Rejected NonError) initial_state) = []
   \<and> snd (uploadFiles ''http://localhost:8000'' None None (Rejected NonError))
     = Inl (JsError ''At least one file (ECG or PCG) must be provided'')"
  using no_files_rejected_locally [of initial_state "''http://localhost:8000''" "Rejected NonError"]
  by (simp add: initial_state_def)

subsection \<open>Error taxonomy of the API client\<close>

text \<open>
  C2, as the code has it. When the \<open>try\<close> block of \<open>uploadFiles\<close> fails with \<open>e\<close>, the
  propagated error is: for an Axios error with a response, the server's \<open>detail\<close> (or
  "Server error occurred" when it is missing or empty) followed by the status code;
  for an Axios error with a request and no response, the server-unreachable message;
  for any other \<open>Error\<close>, that error itself with its own message; and the generic
  fallback message only for a thrown value that is not an \<open>Error\<close>. In every case the
  propagated value is an \<open>Error\<close> carrying a message.
\<close>

theorem upload_error_taxonomy:
  assumes "uploadFiles_try base ecg pcg net = (fx, Inl e)"
  shows "(e = AxiosError (Some resp) req m \<and> detail resp = Some d \<and> d \<noteq> [] \<longrightarrow>
            snd (uploadFiles base ecg pcg net) =
              Inl (JsError (d @ '' (Status: '' @ string_of_nat (status resp) @ '')'')))
       \<and> (e = AxiosError (Some resp) req m
                \<and> (detail resp = None \<or> detail resp = Some []) \<longrightarrow>
            snd (uploadFiles base ecg pcg net) =
              Inl (JsError (''Server error occurred (Status: '' @ string_of_nat (status resp) @ '')'')))
       \<and> (e = AxiosError None True m \<longrightarrow>
            snd (uploadFiles base ecg pcg net) =
              Inl (JsError ''Network error: Unable to reach the server. Please check if the backend is running.''))
       \<and> (e = AxiosError None False m \<or> e = JsError m \<longrightarrow>
            snd (uploadFiles base ecg pcg net) = Inl e \<and> error_message e = Some m)
       \<and> (e = NonError \<longrightarrow>
            snd (uploadFiles base ecg pcg net) =
              Inl (JsError ''An unexpected error occurred during file upload''))
       \<and> (\<exists>e' m. snd (uploadFiles base ecg pcg net) = Inl e' \<and> error_message e' = Some m)"
  using assms
  by (auto simp add: uploadFiles_def uploadFiles_catch_def split: thrown.splits option.splits)

theorem upload_error_taxonomy_witness:
  "snd (uploadFiles ''http://localhost:8000'' (Some \<lparr>file_name = ''ecg.csv'', file_size = 12\<rparr>) None
         (Rejected (AxiosError (Some \<lparr>status = 422, detail = Some ''Invalid ECG file''\<rparr>) True ''Request failed'')))
     = Inl (JsError ''Invalid ECG file (Status: 422)'')"
  using upload_error_taxonomy [of "''http://localhost:8000''" "Some \<lparr>file_name = ''ecg.csv'', file_size = 12\<rparr>" None
      "Rejected (AxiosError (Some \<lparr>status = 422, detail = Some ''Invalid ECG file''\<rparr>) True ''Request failed'')"
      "[ConsoleLog [S ''Uploading ECG file: ecg.csv (12 bytes)''],
        HttpPost ''http://localhost:8000/predict'' [(''ecg_file'', \<lparr>file_name = ''ecg.csv'', file_size = 12\<rparr>)] 300000]"
      "AxiosError (Some \<lparr>status = 422, detail = Some ''Invalid ECG file''\<rparr>) True ''Request failed''"
      "\<lparr>status = 422, detail = Some ''Invalid ECG file''\<rparr>" True "''Request failed''" "''Invalid ECG file''"]
  by (simp add: uploadFiles_try_def string_of_nat.simps)

text \<open>
  The validation failure is a failing call that is neither a server response nor an
  unanswered request, and its message is not the generic fallback: the \<open>Error\<close> thrown
  in the \<open>try\<close> block is thrown on as it is.
\<close>

theorem upload_other_error_counterexample:
  "uploadFiles_try ''http://localhost:8000'' None None (Rejected NonError)
     = ([], Inl (JsError ''At least one file (ECG or PCG) must be provided''))
   \<and> \<not> isAxiosError (JsError ''At least one file (ECG or PCG) must be provided'')
   \<and> snd (uploadFiles ''http://localhost:8000'' None None (Rejected NonError))
       = Inl (JsError ''At least one file (ECG or PCG) must be provided'')
   \<and> snd (uploadFiles ''http://localhost:8000'' None None (Rejected NonError))
       \<noteq> Inl (JsError ''An unexpected error occurred during file upload'')"
  by (simp add: uploadFiles_def uploadFiles_try_def uploadFiles_catch_def)

subsection \<open>Risk labelling\<close>

text \<open>
  C3, as the code has it. A risk value above 0.5 is labelled "HIGH RISK", coloured
  \<open>text-red-400\<close>, and reported as "<percent>% (HIGH RISK)"; a value of at most 0.5 is
  labelled "LOW RISK", coloured \<open>text-emerald-400\<close>, and reported as
  "<percent>% (LOW RISK)"; an absent value is labelled "N/A" by \<open>getRiskLabel\<close>,
  coloured \<open>text-gray-400\<close>, and reported as "Not Available".
\<close>

theorem risk_labelling:
  "(num_gt r (1/2) \<longrightarrow>
      getRiskLabel (Some r) = ''HIGH RISK'' \<and> getRiskColor (Some r) = ''text-red-400''
      \<and> riskText percent (Some r) = percent r @ ''% (HIGH RISK)'')
 \<and> (num_le r (1/2) \<longrightarrow>
      getRiskLabel (Some r) = ''LOW RISK'' \<and> getRiskColor (Some r) = ''text-emerald-400''
      \<and> riskText percent (Some r) = percent r @ ''% (LOW RISK)'')
 \<and> getRiskLabel None = ''N/A'' \<and> getRiskColor None = ''text-gray-400''
 \<and> riskText percent None = ''Not Available''"
  by (cases r) (auto simp add: getRiskLabel_def getRiskColor_def riskText_def)

theorem risk_labelling_witness:
  "num_gt (Finite (9/10)) (1/2) \<and> getRiskLabel (Some (Finite (9/10))) = ''HIGH RISK''
   \<and> num_le (Finite (1/2)) (1/2) \<and> getRiskLabel (Some (Finite (1/2))) = ''LOW RISK''"
  using risk_labelling [of "Finite (9/10)" "\<lambda>r. []"] risk_labelling [of "Finite (1/2)" "\<lambda>r. []"]
  by simp

text \<open>The report's risk text for an absent value is "Not Available", not "N/A".\<close>

theorem report_risk_text_counterexample:
  "riskText (\<lambda>r. []) None \<noteq> ''N/A''"
  by (simp add: riskText_def)

subsection \<open>Health check\<close>

text \<open>
  C10. \<open>checkHealth\<close> never throws: whatever the outcome of the request, it returns a
  boolean, which is true exactly when the request resolved with status 200. A
  rejection (no response, or a response that Axios turns into an error) and a
  resolved response with another status both give false.
\<close>

theorem checkHealth_total:
  "snd (checkHealth base net) = Inr (net = Resolved 200)"
  by (cases net) (simp_all add: checkHealth_def checkHealth_try_def)

subsection \<open>File selection\<close>

text \<open>
  C5, as the code has it. In every state (so in particular in an idle or an error
  state), selecting an ECG file stores it and clears both the error message and the
  parsed CSV preview; selecting a PCG file stores it and clears the error message,
  and leaves the CSV preview, which belongs to the ECG file, as it was.
\<close>

theorem file_selection_clears:
  "ecgFile (handleEcgChange (Some (f # fs)) s) = Some f
   \<and> error (handleEcgChange (Some (f # fs)) s) = None
   \<and> csvData (handleEcgChange (Some (f # fs)) s) = None
   \<and> pcgFile (fst (fst (handlePcgChange (Some (f # fs)) (s, b)))) = Some f
   \<and> error (fst (fst (handlePcgChange (Some (f # fs)) (s, b)))) = None
   \<and> csvData (fst (fst (handlePcgChange (Some (f # fs)) (s, b)))) = csvData s"
  by (simp add: handleEcgChange_def handlePcgChange_def createObjectURL_def
      split: option.splits prod.splits)

theorem file_selection_clears_witness:
  "error (handleEcgChange (Some [\<lparr>file_name = ''ecg.csv'', file_size = 3\<rparr>])
            (initial_state\<lparr>error := Some ''Failed to parse CSV file'', csvData := Some [[''1'']]\<rparr>)) = None
   \<and> csvData (handleEcgChange (Some [\<lparr>file_name = ''ecg.csv'', file_size = 3\<rparr>])
            (initial_state\<lparr>error := Some ''Failed to parse CSV file'', csvData := Some [[''1'']]\<rparr>)) = None"
  using file_selection_clears [of "\<lparr>file_name = ''ecg.csv'', file_size = 3\<rparr>" "[]"
      "initial_state\<lparr>error := Some ''Failed to parse CSV file'', csvData := Some [[''1'']]\<rparr>"]
  by simp

text \<open>
  An error state that holds a CSV preview, reached from the initial state by selecting
  an ECG file, viewing its data and a failed analysis: selecting a PCG file there
  keeps the preview.
\<close>

theorem pcg_selection_keeps_csv_counterexample:
  "error (fst (handleAnalyze ''http://localhost:8000'' (Rejected (AxiosError None True ''Network Error''))
       (handleViewCsvData (Resolved ''1,2'')
         (handleEcgChange (Some [\<lparr>file_name = ''ecg.csv'', file_size = 3\<rparr>]) initial_state))))
     = Some ''Network error: Unable to reach the server. Please check if the backend is running.''
   \<and> csvData (fst (fst (handlePcgChange (Some [\<lparr>file_name = ''pcg.wav'', file_size = 44\<rparr>])
       (fst (handleAnalyze ''http://localhost:8000'' (Rejected (AxiosError None True ''Network Error''))
          (handleViewCsvData (Resolved ''1,2'')
            (handleEcgChange (Some [\<lparr>file_name = ''ecg.csv'', file_size = 3\<rparr>]) initial_state))),
        initial_browser))))
     = Some [[''1'', ''2'']]"
  by (simp add: handleAnalyze_def handleAnalyze_begin_def handleAnalyze_resume_def uploadFiles_def
      uploadFiles_try_def uploadFiles_catch_def handleViewCsvData_def handleEcgChange_def
      handlePcgChange_def createObjectURL_def initial_state_def initial_browser_def
      csv_rows_def trim_def js_whitespace_def)

subsection \<open>CSV preview\<close>

lemma split_on_nonempty: "split_on c s \<noteq> []"
  by (induction s) (auto split: list.splits)

lemma join_split_on: "join_with c (split_on c s) = s"
proof (induction s)
  case Nil
  show ?case by simp
next
  case (Cons x xs)
  obtain r rs where rs: "split_on c xs = r # rs"
    using split_on_nonempty [of c xs] by (cases "split_on c xs") auto
  show ?case
  proof (cases "x = c")
    case True
    with Cons rs show ?thesis by simp
  next
    case False
    with Cons rs show ?thesis by (cases rs) auto
  qed
qed

lemma split_on_no_sep: "p \<in> set (split_on c s) \<Longrightarrow> c \<notin> set p"
  by (induction s arbitrary: p) (auto split: if_splits list.splits)

lemma t3: "csv_rows ''1,2\<newline>3,4\<newline>5,6'' = [[''1'',''2''],[''3'',''4''],[''5'',''6'']]"
  by (simp add: csv_rows_def trim_def js_whitespace_def)

lemma t4: "csv_rows (''1,2'' @ [CHR 0x0A]) = [[''1'',''2'']]"
  by (simp add: csv_rows_def trim_def js_whitespace_def)

lemma t5: "raw_split (''1,2'' @ [CHR 0x0A]) = [[''1'',''2''], [[]]]"
  by (simp add: raw_split_def)

lemma t6: "''1,2\<newline>'' = ''1,2'' @ [CHR 0x0A]"
  by simp


lemma split_on_length: "length (split_on c s) = Suc (count_list s c)"
  by (induction s) (auto split: list.splits)

text \<open>
  C6, as the code has it. For every file text, viewing the CSV data of a selected ECG
  file holds the whole table obtained by splitting the trimmed text at newlines and
  each row at commas: joining the cells and rows again gives the trimmed text back and
  no cell contains a separator. The modal shows the first 200 rows at most, its
  header the total number of rows, and a further note with the total when there are
  more than 200. The text "1,2\n3,4\n5,6" gives 3 rows of 2 cells.
\<close>

theorem csv_preview:
  assumes "ecgFile s \<noteq> None"
  shows "csvData (handleViewCsvData (Resolved text) s) = Some (csv_rows text)
       \<and> showCsvModal (handleViewCsvData (Resolved text) s)
       \<and> csv_rows text = raw_split (trim text)
       \<and> join_with CHR 0x0A (map (join_with CHR '','') (csv_rows text)) = trim text
       \<and> (\<forall>row \<in> set (csv_rows text). \<forall>cell \<in> set row.
             CHR '','' \<notin> set cell \<and> CHR 0x0A \<notin> set cell)
       \<and> (\<exists>m. render_csv_modal (handleViewCsvData (Resolved text) s) = Some m
             \<and> body m = take 200 (csv_rows text)
             \<and> length (body m) \<le> 200
             \<and> header_rows m = length (csv_rows text)
             \<and> (more_note m \<noteq> None \<longleftrightarrow> length (csv_rows text) > 200)
             \<and> more_note m =
                 (if length (csv_rows text) > 200
                  then Some (''Showing first 200 rows of ''
                             @ string_of_nat (length (csv_rows text)) @ '' total rows'')
                  else None))
       \<and> csv_rows ''1,2\<newline>3,4\<newline>5,6'' = [[''1'', ''2''], [''3'', ''4''], [''5'', ''6'']]"
proof -
  let ?s' = "handleViewCsvData (Resolved text) s"
  have data: "csvData ?s' = Some (csv_rows text)" and shown: "showCsvModal ?s'"
    using assms by (auto simp add: handleViewCsvData_def)
  have raw: "csv_rows text = raw_split (trim text)"
    by (simp add: csv_rows_def raw_split_def)
  have "map (join_with CHR '','') (csv_rows text) = split_on CHR 0x0A (trim text)"
    by (simp add: csv_rows_def join_split_on comp_def)
  then have joined: "join_with CHR 0x0A (map (join_with CHR '','') (csv_rows text)) = trim text"
    by (simp add: join_split_on)
  have cells: "\<forall>row \<in> set (csv_rows text). \<forall>cell \<in> set row.
             CHR '','' \<notin> set cell \<and> CHR 0x0A \<notin> set cell"
  proof (intro ballI)
    fix row cell
    assume "row \<in> set (csv_rows text)" and cell: "cell \<in> set row"
    then obtain line where line: "line \<in> set (split_on CHR 0x0A (trim text))"
      and row: "row = split_on CHR '','' line"
      by (auto simp add: csv_rows_def)
    have "CHR '','' \<notin> set cell"
      using cell row split_on_no_sep by blast
    moreover have "CHR 0x0A \<notin> set line"
      using line split_on_no_sep by blast
    moreover have "set cell \<subseteq> set line"
    proof -
      have "set (join_with c ps) \<supseteq> set p" if "p \<in> set ps" for c p ps
        using that by (induction c ps rule: join_with.induct) auto
      from this [of cell row "CHR '',''"] cell row show ?thesis
        by (simp add: join_split_on)
    qed
    ultimately show "CHR '','' \<notin> set cell \<and> CHR 0x0A \<notin> set cell"
      by blast
  qed
  have modal: "\<exists>m. render_csv_modal ?s' = Some m
             \<and> body m = take 200 (csv_rows text)
             \<and> length (body m) \<le> 200
             \<and> header_rows m = length (csv_rows text)
             \<and> (more_note m \<noteq> None \<longleftrightarrow> length (csv_rows text) > 200)
             \<and> more_note m =
                 (if length (csv_rows text) > 200
                  then Some (''Showing first 200 rows of ''
                             @ string_of_nat (length (csv_rows text)) @ '' total rows'')
                  else None)"
    using data shown by (simp add: render_csv_modal_def)
  have example: "csv_rows ''1,2\<newline>3,4\<newline>5,6'' = [[''1'', ''2''], [''3'', ''4''], [''5'', ''6'']]"
    by (simp add: csv_rows_def trim_def js_whitespace_def)
  from data shown raw joined cells modal example show ?thesis
    by blast
qed

theorem csv_preview_witness:
  "ecgFile (handleEcgChange (Some [\<lparr>file_name = ''ecg.csv'', file_size = 11\<rparr>]) initial_state) \<noteq> None
   \<and> csvData (handleViewCsvData (Resolved ''1,2\<newline>3,4\<newline>5,6'')
      (handleEcgChange (Some [\<lparr>file_name = ''ecg.csv'', file_size = 11\<rparr>]) initial_state))
    = Some [[''1'', ''2''], [''3'', ''4''], [''5'', ''6'']]"
proof -
  let ?s = "handleEcgChange (Some [\<lparr>file_name = ''ecg.csv'', file_size = 11\<rparr>]) initial_state"
  have h: "ecgFile ?s \<noteq> None"
    by (simp add: handleEcgChange_def)
  from csv_preview [OF h, of "''1,2\<newline>3,4\<newline>5,6''"]
  have "csvData (handleViewCsvData (Resolved ''1,2\<newline>3,4\<newline>5,6'') ?s)
          = Some (csv_rows ''1,2\<newline>3,4\<newline>5,6'')"
    and "csv_rows ''1,2\<newline>3,4\<newline>5,6'' = [[''1'', ''2''], [''3'', ''4''], [''5'', ''6'']]"
    by blast+
  with h show ?thesis by simp
qed

text \<open>
  A text ending in a newline: the raw split has a last row holding one empty cell,
  the preview does not.
\<close>

theorem csv_trailing_newline_counterexample:
  "csvData (handleViewCsvData (Resolved ''1,2\<newline>'')
      (handleEcgChange (Some [\<lparr>file_name = ''ecg.csv'', file_size = 4\<rparr>]) initial_state))
     = Some [[''1'', ''2'']]
   \<and> raw_split ''1,2\<newline>'' = [[''1'', ''2''], [[]]]"
  by (simp add: handleViewCsvData_def handleEcgChange_def initial_state_def csv_rows_def
      trim_def js_whitespace_def raw_split_def)

subsection \<open>Object URLs of the audio player\<close>

lemma handlePcgChange_step:
  "handlePcgChange (Some (f # rest)) (s, b) =
     ((s\<lparr>pcgFile := Some f, error := None, pcgAudioUrl := Some (next_url b), isPlaying := False\<rparr>,
       \<lparr>next_url = Suc (next_url b),
        live_urls = insert (next_url b) (live_urls b - set_option (pcgAudioUrl s))\<rparr>),
      (case pcgAudioUrl s of None \<Rightarrow> [] | Some u \<Rightarrow> [RevokeObjectURL u])
        @ [CreateObjectURL f (next_url b)])"
  by (cases "pcgAudioUrl s")
     (simp_all add: handlePcgChange_def createObjectURL_def revokeObjectURL_def)

lemma select_pcg_files_general:
  assumes "live_urls b = set_option (pcgAudioUrl s)"
    and "select_pcg_files fs (s, b) = ((s', b'), fx)"
  shows "live_urls b' = set_option (pcgAudioUrl s')
       \<and> next_url b' = next_url b + length fs
       \<and> pcgAudioUrl s' = (if fs = [] then pcgAudioUrl s else Some (next_url b + length fs - 1))
       \<and> fx = concat (map (\<lambda>i. (case (if i = 0 then pcgAudioUrl s else Some (next_url b + i - 1)) of
                                  None \<Rightarrow> [] | Some u \<Rightarrow> [RevokeObjectURL u])
                               @ [CreateObjectURL (fs ! i) (next_url b + i)]) [0..<length fs])"
  using assms
proof (induction fs arbitrary: s b s' b' fx)
  case Nil
  then show ?case by simp
next
  case (Cons f fs)
  let ?s1 = "s\<lparr>pcgFile := Some f, error := None, pcgAudioUrl := Some (next_url b), isPlaying := False\<rparr>"
  let ?b1 = "\<lparr>next_url = Suc (next_url b),
        live_urls = insert (next_url b) (live_urls b - set_option (pcgAudioUrl s))\<rparr>"
  let ?fx1 = "(case pcgAudioUrl s of None \<Rightarrow> [] | Some u \<Rightarrow> [RevokeObjectURL u])
        @ [CreateObjectURL f (next_url b)]"
  obtain fx2 where run: "select_pcg_files fs (?s1, ?b1) = ((s', b'), fx2)" and fx: "fx = ?fx1 @ fx2"
    using Cons.prems(2) by (auto simp add: handlePcgChange_step split: prod.splits)
  have inv1: "live_urls ?b1 = set_option (pcgAudioUrl ?s1)"
    using Cons.prems(1) by simp
  note ih = Cons.IH [OF inv1 run]
  have idx: "[0..<length (f # fs)] = 0 # map Suc [0..<length fs]"
    by (metis length_Cons map_Suc_upt upt_conv_Cons zero_less_Suc)
  from ih have fx2: "fx2 = concat (map (\<lambda>i. [RevokeObjectURL (next_url b + i)]
                               @ [CreateObjectURL (fs ! i) (Suc (next_url b + i))]) [0..<length fs])"
    by (auto intro!: arg_cong [where f = concat])
  show ?case
    using ih fx
    unfolding idx fx2
    by (auto simp add: comp_def)
qed

text \<open>
  C7. After N consecutive PCG selections from the initial state, the effects are, in
  order and for each selection i: the revocation of the URL created by selection i-1
  (for every selection after the first) and then the creation of URL i. The URLs
  still live in the browser are exactly the one the state holds, so no URL created
  by an earlier selection remains.
\<close>

theorem pcg_urls_not_leaked:
  "snd (select_pcg_files fs (initial_state, initial_browser)) =
      concat (map (\<lambda>i. (if i = 0 then [] else [RevokeObjectURL (i - 1)])
                        @ [CreateObjectURL (fs ! i) i]) [0..<length fs])
   \<and> live_urls (snd (fst (select_pcg_files fs (initial_state, initial_browser))))
      = set_option (pcgAudioUrl (fst (fst (select_pcg_files fs (initial_state, initial_browser)))))
   \<and> pcgAudioUrl (fst (fst (select_pcg_files fs (initial_state, initial_browser))))
      = (if fs = [] then None else Some (length fs - 1))"
proof -
  obtain s' b' fx where run: "select_pcg_files fs (initial_state, initial_browser) = ((s', b'), fx)"
    by (metis surj_pair)
  have inv: "live_urls initial_browser = set_option (pcgAudioUrl initial_state)"
    by (simp add: initial_browser_def initial_state_def)
  from select_pcg_files_general [OF inv run]
  have "live_urls b' = set_option (pcgAudioUrl s')"
    and "pcgAudioUrl s' = (if fs = [] then None else Some (length fs - 1))"
    and "fx = concat (map (\<lambda>i. (case (if i = 0 then None else Some (i - 1)) of
                                  None \<Rightarrow> [] | Some u \<Rightarrow> [RevokeObjectURL u])
                               @ [CreateObjectURL (fs ! i) i]) [0..<length fs])"
    by (simp_all add: initial_browser_def initial_state_def cong: if_cong)
  moreover have "(\<lambda>i. (case (if i = 0 then None else Some (i - 1)) of
                                  None \<Rightarrow> [] | Some u \<Rightarrow> [RevokeObjectURL u])
                               @ [CreateObjectURL (fs ! i) i])
       = (\<lambda>i. (if i = 0 then [] else [RevokeObjectURL (i - 1)]) @ [CreateObjectURL (fs ! i) i])"
    by auto
  ultimately show ?thesis
    using run by simp
qed

theorem pcg_urls_not_leaked_witness:
  "snd (select_pcg_files [\<lparr>file_name = ''a.wav'', file_size = 44\<rparr>,
                           \<lparr>file_name = ''b.wav'', file_size = 45\<rparr>,
                           \<lparr>file_name = ''c.wav'', file_size = 46\<rparr>] (initial_state, initial_browser))
     = [CreateObjectURL \<lparr>file_name = ''a.wav'', file_size = 44\<rparr> 0,
        RevokeObjectURL 0,
        CreateObjectURL \<lparr>file_name = ''b.wav'', file_size = 45\<rparr> 1,
        RevokeObjectURL 1,
        CreateObjectURL \<lparr>file_name = ''c.wav'', file_size = 46\<rparr> 2]"
  using pcg_urls_not_leaked [of "[\<lparr>file_name = ''a.wav'', file_size = 44\<rparr>,
                           \<lparr>file_name = ''b.wav'', file_size = 45\<rparr>,
                           \<lparr>file_name = ''c.wav'', file_size = 46\<rparr>]"]
  by (simp add: numeral_3_eq_3)

subsection \<open>Analysis\<close>

lemma uploadFiles_catch_no_network: "filter is_network (fst (uploadFiles_catch e)) = []"
  by (cases e) (simp_all add: uploadFiles_catch_def split: option.splits)

lemma uploadFiles_catch_message: "\<exists>m. error_message (snd (uploadFiles_catch e)) = Some m"
  by (cases e) (simp_all add: uploadFiles_catch_def split: option.splits)

lemma uploadFiles_try_network:
  assumes "ecg \<noteq> None \<or> pcg \<noteq> None"
  shows "filter is_network (fst (uploadFiles_try base ecg pcg net))
           = [HttpPost (base @ ''/predict'')
                ((case ecg of None \<Rightarrow> [] | Some f \<Rightarrow> [(''ecg_file'', f)])
                 @ (case pcg of None \<Rightarrow> [] | Some f \<Rightarrow> [(''pcg_file'', f)])) 300000]"
  using assms
  by (cases net; cases ecg; cases pcg) (simp_all add: uploadFiles_try_def)

lemma uploadFiles_try_result:
  assumes "ecg \<noteq> None \<or> pcg \<noteq> None"
  shows "snd (uploadFiles_try base ecg pcg net)
           = (case net of Resolved r \<Rightarrow> Inr r | Rejected e \<Rightarrow> Inl e)"
  using assms
  by (cases net) (auto simp add: uploadFiles_try_def Let_def)

lemma uploadFiles_network:
  assumes "ecg \<noteq> None \<or> pcg \<noteq> None"
  shows "filter is_network (fst (uploadFiles base ecg pcg net))
           = [HttpPost (base @ ''/predict'')
                ((case ecg of None \<Rightarrow> [] | Some f \<Rightarrow> [(''ecg_file'', f)])
                 @ (case pcg of None \<Rightarrow> [] | Some f \<Rightarrow> [(''pcg_file'', f)])) 300000]"
proof (cases "uploadFiles_try base ecg pcg net")
  case (Pair fx r)
  with uploadFiles_try_network [OF assms, of base net]
  have fx: "filter is_network fx = [HttpPost (base @ ''/predict'')
                ((case ecg of None \<Rightarrow> [] | Some f \<Rightarrow> [(''ecg_file'', f)])
                 @ (case pcg of None \<Rightarrow> [] | Some f \<Rightarrow> [(''pcg_file'', f)])) 300000]"
    by simp
  show ?thesis
  proof (cases r)
    case (Inl e)
    obtain fx' e' where c: "uploadFiles_catch e = (fx', e')" by (cases "uploadFiles_catch e")
    with uploadFiles_catch_no_network [of e] have "filter is_network fx' = []" by simp
    with Pair Inl c fx show ?thesis by (simp add: uploadFiles_def)
  next
    case (Inr v)
    with Pair fx show ?thesis by (simp add: uploadFiles_def)
  qed
qed

lemma uploadFiles_result:
  assumes "ecg \<noteq> None \<or> pcg \<noteq> None"
  shows "snd (uploadFiles base ecg pcg net)
           = (case net of Resolved r \<Rightarrow> Inr r | Rejected e \<Rightarrow> Inl (snd (uploadFiles_catch e)))"
proof (cases "uploadFiles_try base ecg pcg net")
  case (Pair fx r)
  with uploadFiles_try_result [OF assms, of base net]
  have r: "r = (case net of Resolved r \<Rightarrow> Inr r | Rejected e \<Rightarrow> Inl e)" by simp
  show ?thesis
    using Pair r by (cases net) (simp_all add: uploadFiles_def split: prod.splits)
qed

lemma handleAnalyze_unfold:
  assumes "ecgFile s \<noteq> None \<or> pcgFile s \<noteq> None"
  shows "handleAnalyze base net s =
     (fst (handleAnalyze_resume (snd (uploadFiles base (ecgFile s) (pcgFile s) net))
             (s\<lparr>loading := True, error := None\<rparr>)),
      fst (uploadFiles base (ecgFile s) (pcgFile s) net)
        @ snd (handleAnalyze_resume (snd (uploadFiles base (ecgFile s) (pcgFile s) net))
             (s\<lparr>loading := True, error := None\<rparr>)))"
  using assms
  by (auto simp add: handleAnalyze_def handleAnalyze_begin_def split: prod.splits)

lemma handleAnalyze_resume_no_network:
  "filter is_network (snd (handleAnalyze_resume r s)) = []"
  by (cases r) (simp_all add: handleAnalyze_resume_def)

text \<open>
  C8. With at least one file selected, \<open>handleAnalyze\<close> first sets the loading flag and
  clears the error (the analyzing state) and calls the API client with the selected
  files, which issues exactly one POST request. When the request resolves, the
  response becomes the result, the active tab becomes 0 and the error stays cleared;
  when it fails, the error becomes the message of the propagated error. In both cases
  the loading flag ends cleared, also when the continuation runs on a state that
  other events have changed in between.
\<close>

theorem analyze_transitions:
  assumes "ecgFile s \<noteq> None \<or> pcgFile s \<noteq> None"
  shows "handleAnalyze_begin s = (s\<lparr>loading := True, error := None\<rparr>, Some (ecgFile s, pcgFile s))
       \<and> filter is_network (snd (handleAnalyze base net s))
           = [HttpPost (base @ ''/predict'')
                ((case ecgFile s of None \<Rightarrow> [] | Some f \<Rightarrow> [(''ecg_file'', f)])
                 @ (case pcgFile s of None \<Rightarrow> [] | Some f \<Rightarrow> [(''pcg_file'', f)])) 300000]
       \<and> loading (fst (handleAnalyze base net s)) = False
       \<and> (net = Resolved r \<longrightarrow>
            fst (handleAnalyze base net s)
              = s\<lparr>loading := False, error := None, result := Some r, activeTab := 0\<rparr>)
       \<and> (net = Rejected e \<longrightarrow>
            (fst (handleAnalyze base net s)
               = s\<lparr>loading := False, error := error_message (snd (uploadFiles_catch e))\<rparr>
             \<and> error_message (snd (uploadFiles_catch e)) \<noteq> None))
       \<and> loading (fst (handleAnalyze_resume (Inr r) s')) = False
       \<and> result (fst (handleAnalyze_resume (Inr r) s')) = Some r
       \<and> activeTab (fst (handleAnalyze_resume (Inr r) s')) = 0
       \<and> loading (fst (handleAnalyze_resume (Inl e') s')) = False
       \<and> error (fst (handleAnalyze_resume (Inl e') s')) \<noteq> None"
proof -
  note unf = handleAnalyze_unfold [OF assms, of base net]
  note res = uploadFiles_result [OF assms, of base net]
  have c1: "handleAnalyze_begin s = (s\<lparr>loading := True, error := None\<rparr>, Some (ecgFile s, pcgFile s))"
    using assms by (auto simp add: handleAnalyze_begin_def)
  have c2: "filter is_network (snd (handleAnalyze base net s))
           = [HttpPost (base @ ''/predict'')
                ((case ecgFile s of None \<Rightarrow> [] | Some f \<Rightarrow> [(''ecg_file'', f)])
                 @ (case pcgFile s of None \<Rightarrow> [] | Some f \<Rightarrow> [(''pcg_file'', f)])) 300000]"
    by (simp add: unf uploadFiles_network [OF assms] handleAnalyze_resume_no_network)
  have c3: "loading (fst (handleAnalyze base net s)) = False"
    by (simp add: unf handleAnalyze_resume_def split: sum.splits)
  have c4: "net = Resolved r \<longrightarrow>
            fst (handleAnalyze base net s)
              = s\<lparr>loading := False, error := None, result := Some r, activeTab := 0\<rparr>"
  proof
    assume n: "net = Resolved r"
    show "fst (handleAnalyze base net s)
              = s\<lparr>loading := False, error := None, result := Some r, activeTab := 0\<rparr>"
      using unf res unfolding n by (simp add: handleAnalyze_resume_def)
  qed
  have c5: "net = Rejected e \<longrightarrow>
            (fst (handleAnalyze base net s)
               = s\<lparr>loading := False, error := error_message (snd (uploadFiles_catch e))\<rparr>
             \<and> error_message (snd (uploadFiles_catch e)) \<noteq> None)"
  proof
    assume n: "net = Rejected e"
    obtain m where m: "error_message (snd (uploadFiles_catch e)) = Some m"
      using uploadFiles_catch_message by blast
    show "fst (handleAnalyze base net s)
               = s\<lparr>loading := False, error := error_message (snd (uploadFiles_catch e))\<rparr>
             \<and> error_message (snd (uploadFiles_catch e)) \<noteq> None"
      using unf res m unfolding n by (simp add: handleAnalyze_resume_def)
  qed
  have c6: "loading (fst (handleAnalyze_resume (Inr r) s')) = False
       \<and> result (fst (handleAnalyze_resume (Inr r) s')) = Some r
       \<and> activeTab (fst (handleAnalyze_resume (Inr r) s')) = 0
       \<and> loading (fst (handleAnalyze_resume (Inl e') s')) = False
       \<and> error (fst (handleAnalyze_resume (Inl e') s')) \<noteq> None"
    by (simp add: handleAnalyze_resume_def)
  from c1 c2 c3 c4 c5 c6 show ?thesis by blast
qed

theorem analyze_transitions_witness:
  "fst (handleAnalyze ''http://localhost:8000''
         (Resolved \<lparr>ecg_risk = Some (Finite (9/10)), pcg_risk = None, combined_risk = None,
                    ecg_plot_data = None, pcg_waveform_data = None, pcg_spectrogram = None,
                    ecg_heatmap = None, pcg_heatmap = None\<rparr>)
         (initial_state\<lparr>ecgFile := Some \<lparr>file_name = ''ecg.csv'', file_size = 11\<rparr>, activeTab := 2\<rparr>))
    = initial_state\<lparr>ecgFile := Some \<lparr>file_name = ''ecg.csv'', file_size = 11\<rparr>,
         result := Some \<lparr>ecg_risk = Some (Finite (9/10)), pcg_risk = None, combined_risk = None,
                    ecg_plot_data = None, pcg_waveform_data = None, pcg_spectrogram = None,
                    ecg_heatmap = None, pcg_heatmap = None\<rparr>\<rparr>"
  using analyze_transitions [of "initial_state\<lparr>ecgFile := Some \<lparr>file_name = ''ecg.csv'', file_size = 11\<rparr>, activeTab := 2\<rparr>"
      "''http://localhost:8000''"
      "Resolved \<lparr>ecg_risk = Some (Finite (9/10)), pcg_risk = None, combined_risk = None,
                    ecg_plot_data = None, pcg_waveform_data = None, pcg_spectrogram = None,
                    ecg_heatmap = None, pcg_heatmap = None\<rparr>"
      "\<lparr>ecg_risk = Some (Finite (9/10)), pcg_risk = None, combined_risk = None,
                    ecg_plot_data = None, pcg_waveform_data = None, pcg_spectrogram = None,
                    ecg_heatmap = None, pcg_heatmap = None\<rparr>"]
  by (simp add: initial_state_def)

subsection \<open>Report generator\<close>

text \<open>Drawing on the last page appends to the items of the document.\<close>

lemma draw_items:
  assumes "layout_ok p"
  shows "items_of (draw it p) = items_of p @ [it]"
proof -
  from assms obtain xs x where xs: "pages p = xs @ [x]" and pg: "page p = Suc (length xs)"
    by (cases "pages p" rule: rev_cases) (auto simp add: layout_ok_def)
  then show ?thesis
    by (simp add: draw_def items_of_def)
qed

lemma draw_layout_ok: "layout_ok p \<Longrightarrow> layout_ok (draw it p)"
  by (auto simp add: draw_def layout_ok_def)

lemma draw_fields:
  "fontSize (draw it p) = fontSize p" "textColor (draw it p) = textColor p"
  "fontBold (draw it p) = fontBold p" "drawColor (draw it p) = drawColor p"
  "length (pages (draw it p)) = length (pages p)"
  by (simp_all add: draw_def)

lemma update_items:
  "items_of (p\<lparr>fontSize := n\<rparr>) = items_of p" "items_of (p\<lparr>textColor := c\<rparr>) = items_of p"
  "items_of (p\<lparr>fontBold := b\<rparr>) = items_of p" "items_of (p\<lparr>drawColor := c\<rparr>) = items_of p"
  by (simp_all add: items_of_def)

lemma update_layout_ok:
  "layout_ok (p\<lparr>fontSize := n\<rparr>) = layout_ok p" "layout_ok (p\<lparr>textColor := c\<rparr>) = layout_ok p"
  "layout_ok (p\<lparr>fontBold := b\<rparr>) = layout_ok p" "layout_ok (p\<lparr>drawColor := c\<rparr>) = layout_ok p"
  by (simp_all add: layout_ok_def)

lemma addPage_items: "items_of (addPage p) = items_of p"
  by (simp add: addPage_def items_of_def)

lemma addPage_layout_ok: "layout_ok (addPage p)"
  by (simp add: addPage_def layout_ok_def)

lemma addPage_fields:
  "fontSize (addPage p) = fontSize p" "textColor (addPage p) = textColor p"
  "fontBold (addPage p) = fontBold p" "drawColor (addPage p) = drawColor p"
  by (simp_all add: addPage_def)

lemmas pdf_simps = draw_items draw_layout_ok draw_fields update_items update_layout_ok
  addPage_items addPage_layout_ok addPage_fields pdf_text_def pdf_line_def addImage_def

lemma addSectionHeader_effect:
  assumes "layout_ok p"
  shows "layout_ok (fst (addSectionHeader txt (p, y)))"
    and "items_of (fst (addSectionHeader txt (p, y)))
           = items_of p @ [TextItem txt margin y AlignLeft 14 emerald (fontBold p)]"
    and "fontSize (fst (addSectionHeader txt (p, y))) = 11"
    and "fontBold (fst (addSectionHeader txt (p, y))) = fontBold p"
    and "snd (addSectionHeader txt (p, y)) = num_add y (Finite 8)"
  using assms by (simp_all add: addSectionHeader_def Let_def pdf_simps)

lemma addText_effect:
  assumes "layout_ok p"
  shows "layout_ok (fst (addText env label val (p, y)))"
    and "items_of (fst (addText env label val (p, y)))
           = items_of p @
             [TextItem (label @ '': '') (num_add margin (Finite 0)) y AlignLeft (fontSize p) (textColor p) True,
              TextItem val (num_add (num_add margin (Finite 0))
                              (getTextWidth env True (fontSize p) (label @ '': '')))
                 y AlignLeft (fontSize p) (textColor p) False]"
    and "fontSize (fst (addText env label val (p, y))) = fontSize p"
    and "fontBold (fst (addText env label val (p, y))) = False"
  using assms by (simp_all add: addText_def Let_def pdf_simps)


lemma report_heading_effect:
  assumes "layout_ok (fst st)"
  shows "layout_ok (fst (report_heading env st))"
    and "items_of (fst (report_heading env st))
           = items_of (fst st) @
             [TextItem ''SmartHeart Analysis Report'' (num_div (pageWidth env) (Finite 2)) (snd st)
                AlignCenter 22 emerald (fontBold (fst st)),
              TextItem ''Bimodal Deep Learning for ECG and PCG-Based Cardiac Monitoring''
                (num_div (pageWidth env) (Finite 2)) (num_add (snd st) (Finite 10))
                AlignCenter 10 (100, 100, 100) (fontBold (fst st)),
              TextItem (''Report Generated: '' @ localeDate env @ '' at '' @ localeTime env) margin
                (num_add (num_add (snd st) (Finite 10)) (Finite 15))
                AlignLeft 10 (0, 0, 0) (fontBold (fst st)),
              LineItem margin
                (num_sub (num_add (num_add (num_add (snd st) (Finite 10)) (Finite 15)) (Finite 15)) (Finite 5))
                (num_sub (pageWidth env) margin)
                (num_sub (num_add (num_add (num_add (snd st) (Finite 10)) (Finite 15)) (Finite 15)) (Finite 5))
                (200, 200, 200)]"
    and "fontBold (fst (report_heading env st)) = fontBold (fst st)"
  using assms by (cases st; simp add: report_heading_def Let_def pdf_simps)+

lemma advance_effect:
  "fst (advance d st) = fst st" "snd (advance d st) = num_add (snd st) (Finite d)"
  by (cases st; simp add: advance_def)+

lemma addSectionHeader_headers:
  assumes "layout_ok (fst st)"
  shows "layout_ok (fst (addSectionHeader txt st))"
    and "section_headers (fst (addSectionHeader txt st)) = section_headers (fst st) @ [txt]"
    and "images (fst (addSectionHeader txt st)) = images (fst st)"
    and "texts (fst (addSectionHeader txt st)) = texts (fst st) @ [txt]"
    and "fontSize (fst (addSectionHeader txt st)) = 11"
    and "fontBold (fst (addSectionHeader txt st)) = fontBold (fst st)"
  using assms addSectionHeader_effect [of "fst st" "txt" "snd st"]
  by (auto simp add: section_headers_def images_def texts_def)

lemma addText_headers:
  assumes "layout_ok (fst st)" and "fontSize (fst st) = 11"
  shows "layout_ok (fst (addText env label val st))"
    and "section_headers (fst (addText env label val st)) = section_headers (fst st)"
    and "images (fst (addText env label val st)) = images (fst st)"
    and "texts (fst (addText env label val st)) = texts (fst st) @ [label @ '': '', val]"
    and "fontSize (fst (addText env label val st)) = 11"
    and "fontBold (fst (addText env label val st)) = False"
  using assms addText_effect [of "fst st" env label val "snd st"]
  by (auto simp add: section_headers_def images_def texts_def)

lemma report_heading_headers:
  assumes "layout_ok (fst st)"
  shows "layout_ok (fst (report_heading env st))"
    and "section_headers (fst (report_heading env st)) = section_headers (fst st)"
    and "images (fst (report_heading env st)) = images (fst st)"
    and "texts (fst (report_heading env st)) = texts (fst st) @
           [''SmartHeart Analysis Report'',
            ''Bimodal Deep Learning for ECG and PCG-Based Cardiac Monitoring'',
            ''Report Generated: '' @ localeDate env @ '' at '' @ localeTime env]"
    and "fontBold (fst (report_heading env st)) = fontBold (fst st)"
  using assms report_heading_effect [of st env]
  by (auto simp add: section_headers_def images_def texts_def)

lemma report_risks_headers:
  assumes "layout_ok (fst st)"
  shows "layout_ok (fst (report_risks env res st))"
    and "section_headers (fst (report_risks env res st))
           = section_headers (fst st) @ [''Risk Assessment Results'']"
    and "images (fst (report_risks env res st)) = images (fst st)"
    and "texts (fst (report_risks env res st)) = texts (fst st) @
           [''Risk Assessment Results'',
            ''ECG Risk: '', riskText (formatPercent env) (ecg_risk res),
            ''PCG Risk: '', riskText (formatPercent env) (pcg_risk res),
            ''Combined Risk: '', riskText (formatPercent env) (combined_risk res)]"
    and "fontSize (fst (report_risks env res st)) = 11"
    and "fontBold (fst (report_risks env res st)) = False"
  using assms
  by (simp_all add: report_risks_def Let_def advance_effect addSectionHeader_headers addText_headers)

lemma report_files_headers:
  assumes "layout_ok (fst st)"
  shows "layout_ok (fst (report_files env ecg pcg st))"
    and "section_headers (fst (report_files env ecg pcg st))
           = section_headers (fst st) @ [''Files Analyzed'']"
    and "images (fst (report_files env ecg pcg st)) = images (fst st)"
    and "texts (fst (report_files env ecg pcg st)) = texts (fst st) @ [''Files Analyzed'']
           @ (case ecg of None \<Rightarrow> [] | Some f \<Rightarrow> [''ECG File: '', file_name f])
           @ (case pcg of None \<Rightarrow> [] | Some f \<Rightarrow> [''PCG File: '', file_name f])"
    and "fontBold (fst st) = False \<Longrightarrow> fontBold (fst (report_files env ecg pcg st)) = False"
  using assms
  by (cases ecg; cases pcg;
      simp add: report_files_def Let_def advance_effect addSectionHeader_headers addText_headers)+

lemma addImage_headers:
  assumes "layout_ok p"
  shows "layout_ok (addImage img x y w h p)"
    and "section_headers (addImage img x y w h p) = section_headers p"
    and "map item_image (images (addImage img x y w h p)) = map item_image (images p) @ [img]"
    and "texts (addImage img x y w h p) = texts p"
    and "fontBold (addImage img x y w h p) = fontBold p"
  using assms
  by (simp_all add: addImage_def draw_items draw_layout_ok draw_fields
      section_headers_def images_def texts_def)

lemma place_image_headers:
  assumes "layout_ok (fst st)"
  shows "layout_ok (fst (fst (place_image env title img height st)))
    \<and> section_headers (fst (fst (place_image env title img height st)))
           = section_headers (fst st) @ [title]
    \<and> map item_image (images (fst (fst (place_image env title img height st))))
           = map item_image (images (fst st))
             @ (if addImage_error env img (imgWidth env) height = None then [img] else [])
    \<and> texts (fst (fst (place_image env title img height st))) = texts (fst st) @ [title]
    \<and> fontBold (fst (fst (place_image env title img height st))) = fontBold (fst st)
    \<and> snd (place_image env title img height st) = addImage_error env img (imgWidth env) height"
proof -
  obtain p y where st: "st = (p, y)" by (cases st)
  define st1 where "st1 = (if num_gt (num_add y height) 280 then (addPage p, Finite 20) else (p, y))"
  define hs where "hs = addSectionHeader title st1"
  have ok1: "layout_ok (fst st1)"
    using assms st by (simp add: st1_def addPage_layout_ok)
  have same: "section_headers (fst st1) = section_headers p" "images (fst st1) = images p"
    "texts (fst st1) = texts p" "fontBold (fst st1) = fontBold p"
    by (simp_all add: st1_def section_headers_def images_def texts_def addPage_items addPage_fields)
  from addSectionHeader_headers [OF ok1, of title] same
  have hs: "layout_ok (fst hs)" "section_headers (fst hs) = section_headers p @ [title]"
    "images (fst hs) = images p" "texts (fst hs) = texts p @ [title]"
    "fontBold (fst hs) = fontBold p"
    by (simp_all add: hs_def)
  have unfold: "place_image env title img height st =
      (case addImage_error env img (imgWidth env) height of
         Some err \<Rightarrow> (hs, Some err)
       | None \<Rightarrow> ((addImage img margin (snd hs) (imgWidth env) height (fst hs),
                    num_add (snd hs) (num_add height (Finite 10))), None))"
    unfolding hs_def st1_def by (simp add: place_image_def st Let_def)
  show ?thesis
  proof (cases "addImage_error env img (imgWidth env) height")
    case None
    with hs addImage_headers [OF hs(1), of img margin "snd hs" "imgWidth env" height] st
    show ?thesis
      unfolding unfold by simp
  next
    case (Some err)
    with hs st show ?thesis
      unfolding unfold by simp
  qed
qed

lemma capture_section_headers:
  assumes "layout_ok (fst (fst c))"
  shows "layout_ok (fst (fst (capture_section env title failure cap c)))
    \<and> section_headers (fst (fst (capture_section env title failure cap c)))
           = section_headers (fst (fst c))
             @ (case cap of CaptureFailed e \<Rightarrow> [] | Canvas i w h \<Rightarrow> [title])
    \<and> map item_image (images (fst (fst (capture_section env title failure cap c))))
           = map item_image (images (fst (fst c)))
             @ (case cap of CaptureFailed e \<Rightarrow> []
                | Canvas i w h \<Rightarrow>
                    if addImage_error env i (imgWidth env) (imgHeight env w h) = None then [i] else [])
    \<and> texts (fst (fst (capture_section env title failure cap c))) = texts (fst (fst c))
             @ (case cap of CaptureFailed e \<Rightarrow> [] | Canvas i w h \<Rightarrow> [title])
    \<and> fontBold (fst (fst (capture_section env title failure cap c))) = fontBold (fst (fst c))
    \<and> snd (capture_section env title failure cap c) = snd c
             @ (case cap of CaptureFailed e \<Rightarrow> [ConsoleError [S failure, Thrown e]]
                | Canvas i w h \<Rightarrow>
                    (case addImage_error env i (imgWidth env) (imgHeight env w h) of
                       None \<Rightarrow> [] | Some e \<Rightarrow> [ConsoleError [S failure, Thrown e]]))"
proof -
  obtain st lg where c: "c = (st, lg)" by (cases c)
  show ?thesis
  proof (cases cap)
    case (CaptureFailed e)
    with c assms show ?thesis
      by (simp add: capture_section_def)
  next
    case (Canvas i w h)
    from assms c have ok: "layout_ok (fst st)" by simp
    note pl = place_image_headers [OF ok, of env title i "imgHeight env w h"]
    obtain st' r where pi: "place_image env title i (imgHeight env w h) st = (st', r)"
      by (cases "place_image env title i (imgHeight env w h) st")
    with pl have r: "r = addImage_error env i (imgWidth env) (imgHeight env w h)" by simp
    from pl pi have st': "layout_ok (fst st')"
      "section_headers (fst st') = section_headers (fst st) @ [title]"
      "map item_image (images (fst st')) = map item_image (images (fst st))
         @ (if addImage_error env i (imgWidth env) (imgHeight env w h) = None then [i] else [])"
      "texts (fst st') = texts (fst st) @ [title]"
      "fontBold (fst st') = fontBold (fst st)"
      by simp_all
    have cs: "capture_section env title failure cap c =
        (case r of None \<Rightarrow> (st', lg) | Some err \<Rightarrow> (st', lg @ [ConsoleError [S failure, Thrown err]]))"
      using Canvas c pi by (simp add: capture_section_def)
    show ?thesis
    proof (cases "addImage_error env i (imgWidth env) (imgHeight env w h)")
      case None
      with st' c show ?thesis
        unfolding cs r by (simp add: Canvas)
    next
      case (Some err)
      with st' c show ?thesis
        unfolding cs r by (simp add: Canvas)
    qed
  qed
qed

lemma spectrogram_section_headers:
  assumes "layout_ok (fst (fst c))"
  shows "layout_ok (fst (fst (spectrogram_section env img c)))
    \<and> section_headers (fst (fst (spectrogram_section env img c)))
           = section_headers (fst (fst c)) @ [''PCG Spectrogram'']
    \<and> map item_image (images (fst (fst (spectrogram_section env img c))))
           = map item_image (images (fst (fst c)))
             @ (if addImage_error env img (imgWidth env) (Finite 60) = None then [img] else [])
    \<and> texts (fst (fst (spectrogram_section env img c)))
           = texts (fst (fst c)) @ [''PCG Spectrogram'']
    \<and> fontBold (fst (fst (spectrogram_section env img c))) = fontBold (fst (fst c))
    \<and> snd (spectrogram_section env img c) = snd c
             @ (case addImage_error env img (imgWidth env) (Finite 60) of
                  None \<Rightarrow> []
                | Some e \<Rightarrow> [ConsoleError [S ''Failed to add spectrogram:'', Thrown e]])"
proof -
  obtain st lg where c: "c = (st, lg)" by (cases c)
  from assms c have ok: "layout_ok (fst st)" by simp
  note pl = place_image_headers [OF ok, of env "''PCG Spectrogram''" img "Finite 60"]
  obtain st' r where pi: "place_image env ''PCG Spectrogram'' img (Finite 60) st = (st', r)"
    by (cases "place_image env ''PCG Spectrogram'' img (Finite 60) st")
  with pl have r: "r = addImage_error env img (imgWidth env) (Finite 60)" by simp
  from pl pi have st': "layout_ok (fst st')"
    "section_headers (fst st') = section_headers (fst st) @ [''PCG Spectrogram'']"
    "map item_image (images (fst st')) = map item_image (images (fst st))
       @ (if addImage_error env img (imgWidth env) (Finite 60) = None then [img] else [])"
    "texts (fst st') = texts (fst st) @ [''PCG Spectrogram'']"
    "fontBold (fst st') = fontBold (fst st)"
    by simp_all
  have cs: "spectrogram_section env img c =
      (case r of None \<Rightarrow> (st', lg)
       | Some err \<Rightarrow> (st', lg @ [ConsoleError [S ''Failed to add spectrogram:'', Thrown err]]))"
    using c pi by (simp add: spectrogram_section_def)
  show ?thesis
  proof (cases "addImage_error env img (imgWidth env) (Finite 60)")
    case None
    with st' c show ?thesis
      unfolding cs r by simp
  next
    case (Some err)
    with st' c show ?thesis
      unfolding cs r by simp
  qed
qed

lemma stamp_footer_effect:
  assumes "1 \<le> i" and "i \<le> length (pages p)"
  shows "pages (stamp_footer env i n p)
           = (pages p)[i - 1 := pages p ! (i - 1) @ footer_items env (fontBold p) i n]"
    and "fontBold (stamp_footer env i n p) = fontBold p"
  using assms
  by (simp_all add: stamp_footer_def setPage_def pdf_text_def draw_def Let_def footer_items_def)

lemma footer_loop_pages:
  assumes "n = length (pages p)" and "1 \<le> i"
  shows "length (pages (footer_loop env i n p)) = n
       \<and> (\<forall>j<n. pages (footer_loop env i n p) ! j
              = pages p ! j @ (if i \<le> Suc j then footer_items env (fontBold p) (Suc j) n else []))"
  using assms
proof (induction env i n p rule: footer_loop.induct)
  case (1 env i pageCount p)
  show ?case
  proof (cases "i \<le> pageCount")
    case False
    then show ?thesis
      using "1.prems" by (simp add: footer_loop.simps)
  next
    case True
    let ?p' = "stamp_footer env i pageCount p"
    from True "1.prems" have range: "1 \<le> i" "i \<le> length (pages p)" by simp_all
    note eff = stamp_footer_effect [OF range, of env pageCount]
    from eff "1.prems" have len: "pageCount = length (pages ?p')" by simp
    from "1.IH" [OF True len] have ih:
      "length (pages (footer_loop env (Suc i) pageCount ?p')) = pageCount"
      "\<forall>j<pageCount. pages (footer_loop env (Suc i) pageCount ?p') ! j
          = pages ?p' ! j @ (if Suc i \<le> Suc j then footer_items env (fontBold ?p') (Suc j) pageCount else [])"
      by simp_all
    have step: "footer_loop env i pageCount p = footer_loop env (Suc i) pageCount ?p'"
      using True by (subst footer_loop.simps) simp
    have "pages (footer_loop env i pageCount p) ! j
              = pages p ! j @ (if i \<le> Suc j then footer_items env (fontBold p) (Suc j) pageCount else [])"
      if j: "j < pageCount" for j
    proof -
      from ih(2) j have a: "pages (footer_loop env (Suc i) pageCount ?p') ! j
          = pages ?p' ! j @ (if Suc i \<le> Suc j then footer_items env (fontBold p) (Suc j) pageCount else [])"
        by (simp add: eff)
      have b: "pages ?p' ! j = pages p ! j @ (if j = i - 1 then footer_items env (fontBold p) i pageCount else [])"
      proof -
        from j "1.prems" have "j < length (pages p)" by simp
        then show ?thesis
          unfolding eff(1) by (simp add: nth_list_update)
      qed
      show ?thesis
        unfolding step a b using range by (cases "j = i - 1") auto
    qed
    with ih(1) step show ?thesis by simp
  qed
qed

lemma concat_extended:
  assumes len: "length ys = length xs"
    and ext: "\<forall>j<length xs. ys ! j = xs ! j @ zs j"
  shows "(\<forall>j<length xs. filter P (zs j) = []) \<Longrightarrow> filter P (concat ys) = filter P (concat xs)"
    and "set (concat xs) \<subseteq> set (concat ys)"
proof -
  have ys: "ys = map (\<lambda>j. xs ! j @ zs j) [0..<length xs]"
    using len ext by (intro nth_equalityI) auto
  have xs: "xs = map (\<lambda>j. xs ! j) [0..<length xs]"
    by (simp add: map_nth)
  show "set (concat xs) \<subseteq> set (concat ys)"
  proof
    fix x assume "x \<in> set (concat xs)"
    then obtain l where l: "l \<in> set xs" "x \<in> set l"
      by auto
    then obtain j where j: "j < length xs" "xs ! j = l"
      by (auto simp add: in_set_conv_nth)
    with ext l have "x \<in> set (ys ! j)" by simp
    moreover from j len have "ys ! j \<in> set ys" by simp
    ultimately show "x \<in> set (concat ys)"
      by auto
  qed
  assume none: "\<forall>j<length xs. filter P (zs j) = []"
  have "filter P (concat ys) = concat (map (\<lambda>j. filter P (xs ! j @ zs j)) [0..<length xs])"
    by (subst ys) (simp add: filter_concat comp_def)
  also have "\<dots> = concat (map (\<lambda>j. filter P (xs ! j)) [0..<length xs])"
    using none by (intro arg_cong [where f = concat] map_cong) auto
  also have "\<dots> = filter P (concat xs)"
    by (subst (2) xs) (simp add: filter_concat comp_def)
  finally show "filter P (concat ys) = filter P (concat xs)" .
qed

lemma footer_loop_document:
  assumes "n = length (pages p)"
  shows "section_headers (footer_loop env 1 n p) = section_headers p"
    and "images (footer_loop env 1 n p) = images p"
    and "set (texts p) \<subseteq> set (texts (footer_loop env 1 n p))"
    and "length (pages (footer_loop env 1 n p)) = n"
    and "\<forall>j<n. set (footer_items env (fontBold p) (Suc j) n) \<subseteq> set (pages (footer_loop env 1 n p) ! j)"
proof -
  from footer_loop_pages [OF assms, of 1 env]
  have len: "length (pages (footer_loop env 1 n p)) = length (pages p)"
    and ext: "\<forall>j<length (pages p). pages (footer_loop env 1 n p) ! j
              = pages p ! j @ footer_items env (fontBold p) (Suc j) n"
    using assms by simp_all
  note ce = concat_extended [OF len ext]
  have hdr: "\<forall>j<length (pages p). filter is_section_header (footer_items env (fontBold p) (Suc j) n) = []"
    and img: "\<forall>j<length (pages p). filter is_image (footer_items env (fontBold p) (Suc j) n) = []"
    by (simp_all add: footer_items_def)
  show "section_headers (footer_loop env 1 n p) = section_headers p"
    using ce(1) [OF hdr] by (simp add: section_headers_def items_of_def)
  show "images (footer_loop env 1 n p) = images p"
    using ce(1) [OF img] by (simp add: images_def items_of_def)
  have sub: "set (items_of p) \<subseteq> set (items_of (footer_loop env 1 n p))"
    using ce(2) unfolding items_of_def .
  show "set (texts p) \<subseteq> set (texts (footer_loop env 1 n p))"
    unfolding texts_def using sub by auto
  show "length (pages (footer_loop env 1 n p)) = n"
    using len assms by simp
  show "\<forall>j<n. set (footer_items env (fontBold p) (Suc j) n) \<subseteq> set (pages (footer_loop env 1 n p) ! j)"
    using ext assms by simp
qed

text \<open>
  The shape of every report: what is logged, which section headers and images the
  document holds, in order, the texts of the fixed sections, and the footer.
\<close>

lemma new_jsPDF_facts:
  "layout_ok new_jsPDF" "section_headers new_jsPDF = []" "images new_jsPDF = []"
  "texts new_jsPDF = []" "fontBold new_jsPDF = False"
  by (simp_all add: new_jsPDF_def layout_ok_def section_headers_def images_def texts_def items_of_def)

lemma generateReport_document:
  assumes res: "result s = Some res"
  shows "\<exists>doc.
      generateReport env snap s =
        (s\<lparr>reportLoading := False\<rparr>,
         (case snap RiskChart of
            CaptureFailed e \<Rightarrow> [ConsoleError [S ''Failed to capture risk chart:'', Thrown e]]
          | Canvas i w h \<Rightarrow>
              (case addImage_error env i (imgWidth env) (imgHeight env w h) of
                 None \<Rightarrow> [] | Some e \<Rightarrow> [ConsoleError [S ''Failed to capture risk chart:'', Thrown e]]))
         @ (if ref_current s EcgChart
            then (case snap EcgChart of
                    CaptureFailed e \<Rightarrow> [ConsoleError [S ''Failed to capture ECG chart:'', Thrown e]]
                  | Canvas i w h \<Rightarrow>
                      (case addImage_error env i (imgWidth env) (imgHeight env w h) of
                         None \<Rightarrow> [] | Some e \<Rightarrow> [ConsoleError [S ''Failed to capture ECG chart:'', Thrown e]]))
            else [])
         @ (if ref_current s PcgChart
            then (case snap PcgChart of
                    CaptureFailed e \<Rightarrow> [ConsoleError [S ''Failed to capture PCG chart:'', Thrown e]]
                  | Canvas i w h \<Rightarrow>
                      (case addImage_error env i (imgWidth env) (imgHeight env w h) of
                         None \<Rightarrow> [] | Some e \<Rightarrow> [ConsoleError [S ''Failed to capture PCG chart:'', Thrown e]]))
            else [])
         @ (case pcg_spectrogram res of
              None \<Rightarrow> []
            | Some img \<Rightarrow>
                if img = [] then []
                else (case addImage_error env img (imgWidth env) (Finite 60) of
                        None \<Rightarrow> []
                      | Some e \<Rightarrow> [ConsoleError [S ''Failed to add spectrogram:'', Thrown e]])),
         Some (''SmartHeart_Report_'' @ isoDate env @ ''.pdf'', doc))
    \<and> section_headers doc =
        [''Risk Assessment Results'', ''Files Analyzed'']
        @ (case snap RiskChart of CaptureFailed e \<Rightarrow> [] | Canvas i w h \<Rightarrow> [''Risk Assessment Overview''])
        @ (if ref_current s EcgChart
           then (case snap EcgChart of CaptureFailed e \<Rightarrow> [] | Canvas i w h \<Rightarrow> [''ECG Signal Visualization''])
           else [])
        @ (if ref_current s PcgChart
           then (case snap PcgChart of CaptureFailed e \<Rightarrow> [] | Canvas i w h \<Rightarrow> [''PCG Waveform Visualization''])
           else [])
        @ (case pcg_spectrogram res of
             None \<Rightarrow> [] | Some img \<Rightarrow> if img = [] then [] else [''PCG Spectrogram''])
    \<and> map item_image (images doc) =
        (case snap RiskChart of
           CaptureFailed e \<Rightarrow> []
         | Canvas i w h \<Rightarrow>
             if addImage_error env i (imgWidth env) (imgHeight env w h) = None then [i] else [])
        @ (if ref_current s EcgChart
           then (case snap EcgChart of
                   CaptureFailed e \<Rightarrow> []
                 | Canvas i w h \<Rightarrow>
                     if addImage_error env i (imgWidth env) (imgHeight env w h) = None then [i] else [])
           else [])
        @ (if ref_current s PcgChart
           then (case snap PcgChart of
                   CaptureFailed e \<Rightarrow> []
                 | Canvas i w h \<Rightarrow>
                     if addImage_error env i (imgWidth env) (imgHeight env w h) = None then [i] else [])
           else [])
        @ (case pcg_spectrogram res of
             None \<Rightarrow> []
           | Some img \<Rightarrow>
               if img = [] then []
               else if addImage_error env img (imgWidth env) (Finite 60) = None then [img] else [])
    \<and> set ([''SmartHeart Analysis Report'',
             ''Bimodal Deep Learning for ECG and PCG-Based Cardiac Monitoring'',
             ''Report Generated: '' @ localeDate env @ '' at '' @ localeTime env,
             ''Risk Assessment Results'',
             ''ECG Risk: '', riskText (formatPercent env) (ecg_risk res),
             ''PCG Risk: '', riskText (formatPercent env) (pcg_risk res),
             ''Combined Risk: '', riskText (formatPercent env) (combined_risk res),
             ''Files Analyzed'']
            @ (case ecgFile s of None \<Rightarrow> [] | Some f \<Rightarrow> [''ECG File: '', file_name f])
            @ (case pcgFile s of None \<Rightarrow> [] | Some f \<Rightarrow> [''PCG File: '', file_name f]))
        \<subseteq> set (texts doc)
    \<and> (\<forall>j<length (pages doc).
          set (footer_items env False (Suc j) (length (pages doc))) \<subseteq> set (pages doc ! j))
    \<and> pages doc \<noteq> []
    \<and> (\<exists>layout.
          length (pages doc) = length (pages layout)
        \<and> (\<forall>j<length (pages doc).
              pages doc ! j = pages layout ! j @ footer_items env False (Suc j) (length (pages doc)))
        \<and> texts layout =
            [''SmartHeart Analysis Report'',
             ''Bimodal Deep Learning for ECG and PCG-Based Cardiac Monitoring'',
             ''Report Generated: '' @ localeDate env @ '' at '' @ localeTime env,
             ''Risk Assessment Results'',
             ''ECG Risk: '', riskText (formatPercent env) (ecg_risk res),
             ''PCG Risk: '', riskText (formatPercent env) (pcg_risk res),
             ''Combined Risk: '', riskText (formatPercent env) (combined_risk res),
             ''Files Analyzed'']
            @ (case ecgFile s of None \<Rightarrow> [] | Some f \<Rightarrow> [''ECG File: '', file_name f])
            @ (case pcgFile s of None \<Rightarrow> [] | Some f \<Rightarrow> [''PCG File: '', file_name f])
            @ (case snap RiskChart of CaptureFailed e \<Rightarrow> [] | Canvas i w h \<Rightarrow> [''Risk Assessment Overview''])
            @ (if ref_current s EcgChart
               then (case snap EcgChart of CaptureFailed e \<Rightarrow> [] | Canvas i w h \<Rightarrow> [''ECG Signal Visualization''])
               else [])
            @ (if ref_current s PcgChart
               then (case snap PcgChart of CaptureFailed e \<Rightarrow> [] | Canvas i w h \<Rightarrow> [''PCG Waveform Visualization''])
               else [])
            @ (case pcg_spectrogram res of
                 None \<Rightarrow> [] | Some img \<Rightarrow> if img = [] then [] else [''PCG Spectrogram'']))"
    (is "\<exists>doc. ?G doc \<and> ?H doc \<and> ?I doc \<and> ?T doc \<and> ?F doc \<and> ?N doc
           \<and> (\<exists>layout. ?A doc layout \<and> ?B doc layout \<and> texts layout = ?EX)")
proof -
  define st1 where "st1 = report_heading env (new_jsPDF, Finite 20)"
  define st2 where "st2 = report_risks env res st1"
  define st3 where "st3 = report_files env (ecgFile s) (pcgFile s) st2"
  define c0 :: "(pdf \<times> number) \<times> effect list" where "c0 = (st3, [])"
  define c1 where "c1 = capture_section env ''Risk Assessment Overview''
                           ''Failed to capture risk chart:'' (snap RiskChart) c0"
  define c2 where "c2 = (if ecg_plot_data res \<noteq> None \<and> ref_current s EcgChart
                    then capture_section env ''ECG Signal Visualization''
                           ''Failed to capture ECG chart:'' (snap EcgChart) c1
                    else c1)"
  define c3 where "c3 = (if pcg_waveform_data res \<noteq> None \<and> ref_current s PcgChart
                    then capture_section env ''PCG Waveform Visualization''
                           ''Failed to capture PCG chart:'' (snap PcgChart) c2
                    else c2)"
  define c4 where "c4 = (case pcg_spectrogram res of
                      None \<Rightarrow> c3
                    | Some img \<Rightarrow> if img = [] then c3 else spectrogram_section env img c3)"
  define doc where "doc = footer_loop env 1 (length (pages (fst (fst c4)))) (fst (fst c4))"
  have conds: "ref_current s RiskChart"
    "(ecg_plot_data res \<noteq> None \<and> ref_current s EcgChart) = ref_current s EcgChart"
    "(pcg_waveform_data res \<noteq> None \<and> ref_current s PcgChart) = ref_current s PcgChart"
    using res by auto
  have gen: "generateReport env snap s =
      (s\<lparr>reportLoading := False\<rparr>, snd c4, Some (''SmartHeart_Report_'' @ isoDate env @ ''.pdf'', doc))"
    unfolding doc_def c4_def c3_def c2_def c1_def c0_def st3_def st2_def st1_def
      generateReport_def Let_def res option.case getNumberOfPages_def
    using conds(1) by (simp only: if_True)
  have c2_alt: "c2 = (if ref_current s EcgChart
                    then capture_section env ''ECG Signal Visualization''
                           ''Failed to capture ECG chart:'' (snap EcgChart) c1
                    else c1)"
    unfolding c2_def conds(2) ..
  have c3_alt: "c3 = (if ref_current s PcgChart
                    then capture_section env ''PCG Waveform Visualization''
                           ''Failed to capture PCG chart:'' (snap PcgChart) c2
                    else c2)"
    unfolding c3_def conds(3) ..

  have ok0: "layout_ok (fst (new_jsPDF, Finite 20))"
    by (simp add: new_jsPDF_facts)
  note h1 = report_heading_headers [OF ok0, of env, folded st1_def]
  note h2 = report_risks_headers [OF h1(1), of env res, folded st2_def]
  note h3 = report_files_headers [OF h2(1), of env "ecgFile s" "pcgFile s", folded st3_def]
  have s3: "layout_ok (fst st3)"
    "section_headers (fst st3) = [''Risk Assessment Results'', ''Files Analyzed'']"
    "images (fst st3) = []"
    "texts (fst st3) = [''SmartHeart Analysis Report'',
             ''Bimodal Deep Learning for ECG and PCG-Based Cardiac Monitoring'',
             ''Report Generated: '' @ localeDate env @ '' at '' @ localeTime env,
             ''Risk Assessment Results'',
             ''ECG Risk: '', riskText (formatPercent env) (ecg_risk res),
             ''PCG Risk: '', riskText (formatPercent env) (pcg_risk res),
             ''Combined Risk: '', riskText (formatPercent env) (combined_risk res),
             ''Files Analyzed'']
            @ (case ecgFile s of None \<Rightarrow> [] | Some f \<Rightarrow> [''ECG File: '', file_name f])
            @ (case pcgFile s of None \<Rightarrow> [] | Some f \<Rightarrow> [''PCG File: '', file_name f])"
    "fontBold (fst st3) = False"
    using h1 h2 h3 by (simp_all add: new_jsPDF_facts)

  have ok_c0: "layout_ok (fst (fst c0))" using s3 by (simp add: c0_def)
  note k1 = capture_section_headers [OF ok_c0, of env "''Risk Assessment Overview''"
      "''Failed to capture risk chart:''" "snap RiskChart", folded c1_def]
  have ok_c1: "layout_ok (fst (fst c1))" using k1 by simp
  note k2 = capture_section_headers [OF ok_c1, of env "''ECG Signal Visualization''"
      "''Failed to capture ECG chart:''" "snap EcgChart"]
  have ok_c2: "layout_ok (fst (fst c2))" using k2 ok_c1 by (simp add: c2_alt)
  note k3 = capture_section_headers [OF ok_c2, of env "''PCG Waveform Visualization''"
      "''Failed to capture PCG chart:''" "snap PcgChart"]
  have ok_c3: "layout_ok (fst (fst c3))" using k3 ok_c2 by (simp add: c3_alt)
  note k4 = spectrogram_section_headers [OF ok_c3, of env]
  have ok_c4: "layout_ok (fst (fst c4))"
    using k4 ok_c3 by (simp add: c4_def split: option.splits)

  have hd1: "section_headers (fst (fst c1)) = [''Risk Assessment Results'', ''Files Analyzed'']
        @ (case snap RiskChart of CaptureFailed e \<Rightarrow> [] | Canvas i w h \<Rightarrow> [''Risk Assessment Overview''])"
    using k1 s3 by (simp add: c0_def)
  have hd2: "section_headers (fst (fst c2)) = section_headers (fst (fst c1))
        @ (if ref_current s EcgChart
           then (case snap EcgChart of CaptureFailed e \<Rightarrow> [] | Canvas i w h \<Rightarrow> [''ECG Signal Visualization''])
           else [])"
    using k2 by (simp add: c2_alt)
  have hd3: "section_headers (fst (fst c3)) = section_headers (fst (fst c2))
        @ (if ref_current s PcgChart
           then (case snap PcgChart of CaptureFailed e \<Rightarrow> [] | Canvas i w h \<Rightarrow> [''PCG Waveform Visualization''])
           else [])"
    using k3 by (simp add: c3_alt)
  have hd4: "section_headers (fst (fst c4)) = section_headers (fst (fst c3))
        @ (case pcg_spectrogram res of
             None \<Rightarrow> [] | Some img \<Rightarrow> if img = [] then [] else [''PCG Spectrogram''])"
    using k4 by (simp add: c4_def split: option.splits)

  have im1: "map item_image (images (fst (fst c1))) =
        (case snap RiskChart of
           CaptureFailed e \<Rightarrow> []
         | Canvas i w h \<Rightarrow>
             if addImage_error env i (imgWidth env) (imgHeight env w h) = None then [i] else [])"
    using k1 s3 by (simp add: c0_def)
  have im2: "map item_image (images (fst (fst c2))) = map item_image (images (fst (fst c1)))
        @ (if ref_current s EcgChart
           then (case snap EcgChart of
                   CaptureFailed e \<Rightarrow> []
                 | Canvas i w h \<Rightarrow>
                     if addImage_error env i (imgWidth env) (imgHeight env w h) = None then [i] else [])
           else [])"
    using k2 by (simp add: c2_alt)
  have im3: "map item_image (images (fst (fst c3))) = map item_image (images (fst (fst c2)))
        @ (if ref_current s PcgChart
           then (case snap PcgChart of
                   CaptureFailed e \<Rightarrow> []
                 | Canvas i w h \<Rightarrow>
                     if addImage_error env i (imgWidth env) (imgHeight env w h) = None then [i] else [])
           else [])"
    using k3 by (simp add: c3_alt)
  have im4: "map item_image (images (fst (fst c4))) = map item_image (images (fst (fst c3)))
        @ (case pcg_spectrogram res of
             None \<Rightarrow> []
           | Some img \<Rightarrow>
               if img = [] then []
               else if addImage_error env img (imgWidth env) (Finite 60) = None then [img] else [])"
    using k4 by (simp add: c4_def split: option.splits)

  have lg1: "snd c1 =
         (case snap RiskChart of
            CaptureFailed e \<Rightarrow> [ConsoleError [S ''Failed to capture risk chart:'', Thrown e]]
          | Canvas i w h \<Rightarrow>
              (case addImage_error env i (imgWidth env) (imgHeight env w h) of
                 None \<Rightarrow> [] | Some e \<Rightarrow> [ConsoleError [S ''Failed to capture risk chart:'', Thrown e]]))"
    using k1 by (simp add: c0_def)
  have lg2: "snd c2 = snd c1
         @ (if ref_current s EcgChart
            then (case snap EcgChart of
                    CaptureFailed e \<Rightarrow> [ConsoleError [S ''Failed to capture ECG chart:'', Thrown e]]
                  | Canvas i w h \<Rightarrow>
                      (case addImage_error env i (imgWidth env) (imgHeight env w h) of
                         None \<Rightarrow> [] | Some e \<Rightarrow> [ConsoleError [S ''Failed to capture ECG chart:'', Thrown e]]))
            else [])"
    using k2 by (simp add: c2_alt)
  have lg3: "snd c3 = snd c2
         @ (if ref_current s PcgChart
            then (case snap PcgChart of
                    CaptureFailed e \<Rightarrow> [ConsoleError [S ''Failed to capture PCG chart:'', Thrown e]]
                  | Canvas i w h \<Rightarrow>
                      (case addImage_error env i (imgWidth env) (imgHeight env w h) of
                         None \<Rightarrow> [] | Some e \<Rightarrow> [ConsoleError [S ''Failed to capture PCG chart:'', Thrown e]]))
            else [])"
    using k3 by (simp add: c3_alt)
  have lg4: "snd c4 = snd c3
         @ (case pcg_spectrogram res of
              None \<Rightarrow> []
            | Some img \<Rightarrow>
                if img = [] then []
                else (case addImage_error env img (imgWidth env) (Finite 60) of
                        None \<Rightarrow> []
                      | Some e \<Rightarrow> [ConsoleError [S ''Failed to add spectrogram:'', Thrown e]]))"
    using k4 by (simp add: c4_def split: option.splits)

  have tx1: "set (texts (fst st3)) \<subseteq> set (texts (fst (fst c1)))"
    using k1 by (simp add: c0_def)
  have tx2: "set (texts (fst (fst c1))) \<subseteq> set (texts (fst (fst c2)))"
    using k2 by (simp add: c2_alt)
  have tx3: "set (texts (fst (fst c2))) \<subseteq> set (texts (fst (fst c3)))"
    using k3 by (simp add: c3_alt)
  have tx4: "set (texts (fst (fst c3))) \<subseteq> set (texts (fst (fst c4)))"
    using k4 by (auto simp add: c4_def split: option.splits)
  have bold1: "fontBold (fst (fst c1)) = False" using k1 s3 by (simp add: c0_def)
  have bold2: "fontBold (fst (fst c2)) = False" using k2 bold1 by (simp add: c2_alt)
  have bold3: "fontBold (fst (fst c3)) = False" using k3 bold2 by (simp add: c3_alt)
  have bold4: "fontBold (fst (fst c4)) = False"
    using k4 bold3 by (simp add: c4_def split: option.splits)

  note ft = footer_loop_document [where p = "fst (fst c4)" and env = env
      and n = "length (pages (fst (fst c4)))", OF refl, folded doc_def]
  have a: "section_headers doc = section_headers (fst (fst c4))"
    and b: "images doc = images (fst (fst c4))"
    and c: "set (texts (fst st3)) \<subseteq> set (texts doc)"
    and d: "\<forall>j<length (pages doc).
          set (footer_items env False (Suc j) (length (pages doc))) \<subseteq> set (pages doc ! j)"
    using ft tx1 tx2 tx3 tx4 bold4 by auto
  have g: "?G doc"
    using gen unfolding lg4 lg3 lg2 lg1 by (simp only: append_assoc)
  have h: "?H doc"
    using a unfolding hd4 hd3 hd2 hd1 by (simp only: append_assoc)
  from b have b': "map item_image (images doc) = map item_image (images (fst (fst c4)))"
    by simp
  have i: "?I doc"
    using b' unfolding im4 im3 im2 im1 by (simp only: append_assoc)
  have t: "?T doc"
    using c unfolding s3(4) .
  have n: "?N doc"
    using ft(4) ok_c4 by (auto simp add: layout_ok_def)
  have te1: "texts (fst (fst c1)) = texts (fst st3)
        @ (case snap RiskChart of CaptureFailed e \<Rightarrow> [] | Canvas i w h \<Rightarrow> [''Risk Assessment Overview''])"
    using k1 by (simp add: c0_def)
  have te2: "texts (fst (fst c2)) = texts (fst (fst c1))
        @ (if ref_current s EcgChart
           then (case snap EcgChart of CaptureFailed e \<Rightarrow> [] | Canvas i w h \<Rightarrow> [''ECG Signal Visualization''])
           else [])"
    using k2 by (simp add: c2_alt)
  have te3: "texts (fst (fst c3)) = texts (fst (fst c2))
        @ (if ref_current s PcgChart
           then (case snap PcgChart of CaptureFailed e \<Rightarrow> [] | Canvas i w h \<Rightarrow> [''PCG Waveform Visualization''])
           else [])"
    using k3 by (simp add: c3_alt)
  have te4: "texts (fst (fst c4)) = texts (fst (fst c3))
        @ (case pcg_spectrogram res of
             None \<Rightarrow> [] | Some img \<Rightarrow> if img = [] then [] else [''PCG Spectrogram''])"
    using k4 by (simp add: c4_def split: option.splits)
  from footer_loop_pages [where p = "fst (fst c4)" and env = env and i = 1
      and n = "length (pages (fst (fst c4)))", OF refl, folded doc_def] bold4
  have fl: "length (pages doc) = length (pages (fst (fst c4)))"
    "\<forall>j<length (pages doc).
        pages doc ! j = pages (fst (fst c4)) ! j @ footer_items env False (Suc j) (length (pages doc))"
    by simp_all
  have tex: "texts (fst (fst c4)) = ?EX"
    unfolding te4 te3 te2 te1 s3(4) by (simp only: append_assoc)
  have l: "\<exists>layout. ?A doc layout \<and> ?B doc layout \<and> texts layout = ?EX"
    using fl tex by blast
  from g h i t d n l show ?thesis
    by blast
qed

text \<open>
  C4, as the code has it. For a result without ECG plot data, PCG waveform data and
  spectrogram, the report is still saved and holds the title, subtitle and date line,
  the risk-assessment section with its three risk lines, and the files-analyzed
  section with the names of the selected files. Its section headers are these two
  sections and, when the capture of the risk bar chart succeeds, "Risk Assessment
  Overview": there is no ECG, PCG or spectrogram section, and the only image the
  document can hold is the risk bar chart.
\<close>

theorem report_without_signal_data:
  assumes "result s = Some res"
    and "ecg_plot_data res = None" and "pcg_waveform_data res = None"
    and "pcg_spectrogram res = None"
  shows "\<exists>doc.
      snd (snd (generateReport env snap s)) = Some (''SmartHeart_Report_'' @ isoDate env @ ''.pdf'', doc)
    \<and> set [''SmartHeart Analysis Report'',
            ''Bimodal Deep Learning for ECG and PCG-Based Cardiac Monitoring'',
            ''Report Generated: '' @ localeDate env @ '' at '' @ localeTime env] \<subseteq> set (texts doc)
    \<and> set [''Risk Assessment Results'',
            ''ECG Risk: '', riskText (formatPercent env) (ecg_risk res),
            ''PCG Risk: '', riskText (formatPercent env) (pcg_risk res),
            ''Combined Risk: '', riskText (formatPercent env) (combined_risk res)] \<subseteq> set (texts doc)
    \<and> set ([''Files Analyzed'']
            @ (case ecgFile s of None \<Rightarrow> [] | Some f \<Rightarrow> [''ECG File: '', file_name f])
            @ (case pcgFile s of None \<Rightarrow> [] | Some f \<Rightarrow> [''PCG File: '', file_name f]))
        \<subseteq> set (texts doc)
    \<and> section_headers doc =
        [''Risk Assessment Results'', ''Files Analyzed'']
        @ (case snap RiskChart of CaptureFailed e \<Rightarrow> [] | Canvas i w h \<Rightarrow> [''Risk Assessment Overview''])
    \<and> map item_image (images doc) =
        (case snap RiskChart of
           CaptureFailed e \<Rightarrow> []
         | Canvas i w h \<Rightarrow>
             if addImage_error env i (imgWidth env) (imgHeight env w h) = None then [i] else [])"
proof -
  from assms have no: "\<not> ref_current s EcgChart" "\<not> ref_current s PcgChart"
    by simp_all
  from generateReport_document [OF assms(1), of env snap] obtain doc where
    g: "generateReport env snap s =
        (s\<lparr>reportLoading := False\<rparr>,
         (case snap RiskChart of
            CaptureFailed e \<Rightarrow> [ConsoleError [S ''Failed to capture risk chart:'', Thrown e]]
          | Canvas i w h \<Rightarrow>
              (case addImage_error env i (imgWidth env) (imgHeight env w h) of
                 None \<Rightarrow> [] | Some e \<Rightarrow> [ConsoleError [S ''Failed to capture risk chart:'', Thrown e]])),
         Some (''SmartHeart_Report_'' @ isoDate env @ ''.pdf'', doc))"
    and h: "section_headers doc =
        [''Risk Assessment Results'', ''Files Analyzed'']
        @ (case snap RiskChart of CaptureFailed e \<Rightarrow> [] | Canvas i w h \<Rightarrow> [''Risk Assessment Overview''])"
    and i: "map item_image (images doc) =
        (case snap RiskChart of
           CaptureFailed e \<Rightarrow> []
         | Canvas i w h \<Rightarrow>
             if addImage_error env i (imgWidth env) (imgHeight env w h) = None then [i] else [])"
    and t: "set ([''SmartHeart Analysis Report'',
             ''Bimodal Deep Learning for ECG and PCG-Based Cardiac Monitoring'',
             ''Report Generated: '' @ localeDate env @ '' at '' @ localeTime env,
             ''Risk Assessment Results'',
             ''ECG Risk: '', riskText (formatPercent env) (ecg_risk res),
             ''PCG Risk: '', riskText (formatPercent env) (pcg_risk res),
             ''Combined Risk: '', riskText (formatPercent env) (combined_risk res),
             ''Files Analyzed'']
            @ (case ecgFile s of None \<Rightarrow> [] | Some f \<Rightarrow> [''ECG File: '', file_name f])
            @ (case pcgFile s of None \<Rightarrow> [] | Some f \<Rightarrow> [''PCG File: '', file_name f]))
        \<subseteq> set (texts doc)"
    unfolding assms(4) option.case if_not_P [OF no(1)] if_not_P [OF no(2)] append_Nil2
    by blast
  from g have saved: "snd (snd (generateReport env snap s))
      = Some (''SmartHeart_Report_'' @ isoDate env @ ''.pdf'', doc)"
    by simp
  from t have t1: "set [''SmartHeart Analysis Report'',
            ''Bimodal Deep Learning for ECG and PCG-Based Cardiac Monitoring'',
            ''Report Generated: '' @ localeDate env @ '' at '' @ localeTime env] \<subseteq> set (texts doc)"
    and t2: "set [''Risk Assessment Results'',
            ''ECG Risk: '', riskText (formatPercent env) (ecg_risk res),
            ''PCG Risk: '', riskText (formatPercent env) (pcg_risk res),
            ''Combined Risk: '', riskText (formatPercent env) (combined_risk res)] \<subseteq> set (texts doc)"
    and t3: "set ([''Files Analyzed'']
            @ (case ecgFile s of None \<Rightarrow> [] | Some f \<Rightarrow> [''ECG File: '', file_name f])
            @ (case pcgFile s of None \<Rightarrow> [] | Some f \<Rightarrow> [''PCG File: '', file_name f]))
        \<subseteq> set (texts doc)"
    by simp_all
  from saved t1 t2 t3 h i show ?thesis
    by blast
qed

theorem report_without_signal_data_witness:
  "\<exists>doc. snd (snd (generateReport example_env (\<lambda>c. Canvas ''risk.png'' 800 320)
                     (example_state example_response)))
            = Some (''SmartHeart_Report_2026-11-03.pdf'', doc)
         \<and> section_headers doc
            = [''Risk Assessment Results'', ''Files Analyzed'', ''Risk Assessment Overview'']
         \<and> map item_image (images doc) = [''risk.png'']"
  using report_without_signal_data [of "example_state example_response" example_response
      example_env "\<lambda>c. Canvas ''risk.png'' 800 320"]
  by (auto simp add: example_state_def example_response_def example_env_def)

text \<open>
  With no signal data in the result and a risk chart that is captured, the report
  has a third section, "Risk Assessment Overview", with one image.
\<close>

theorem report_risk_chart_counterexample:
  "map_option (\<lambda>(name, doc). (section_headers doc, map item_image (images doc)))
     (snd (snd (generateReport example_env (\<lambda>c. Canvas ''risk.png'' 800 320)
                  (example_state example_response))))
   = Some ([''Risk Assessment Results'', ''Files Analyzed'', ''Risk Assessment Overview''],
           [''risk.png''])
   \<and> ecg_plot_data example_response = None \<and> pcg_waveform_data example_response = None
   \<and> pcg_spectrogram example_response = None"
proof -
  have r: "result (example_state example_response) = Some example_response"
    by (simp add: example_state_def)
  from generateReport_document [OF r, of example_env "\<lambda>c. Canvas ''risk.png'' 800 320"]
  obtain doc where
    "snd (snd (generateReport example_env (\<lambda>c. Canvas ''risk.png'' 800 320)
                  (example_state example_response)))
       = Some (''SmartHeart_Report_'' @ isoDate example_env @ ''.pdf'', doc)"
    "section_headers doc
       = [''Risk Assessment Results'', ''Files Analyzed'', ''Risk Assessment Overview'']"
    "map item_image (images doc) = [''risk.png'']"
    by (auto simp add: example_state_def example_response_def example_env_def)
  then show ?thesis
    by (simp add: example_response_def)
qed

text \<open>
  C9. Whatever the outcomes of the chart captures, the report is saved and nothing is
  thrown. Each chart block decides for itself:
  \<^item> when the snapshot of an attempted chart fails, the failure is logged with the
    message of that chart and the block writes nothing, neither header nor image;
  \<^item> when the snapshot succeeds and \<open>addImage\<close> accepts the image, the block writes
    its header and its image;
  \<^item> when the snapshot succeeds and \<open>addImage\<close> throws, the block has already written
    its header: the header stays, no image is placed, and the error is logged with
    the same message. Only a failed snapshot skips a section whole.

  The console output is exactly these log lines, in the order of the blocks. The
  finished document is the layout with the two footer items (the disclaimer and
  "Page i of n") appended to each of its pages, and to nothing else. The texts of the
  layout are, in order, exactly: title, subtitle and date line; the risk-assessment
  section with its three labelled risk lines; the files-analyzed section with the
  names of the selected files; and one header for each chart block that got as far as
  its header. The images of the document are, in order, exactly those of the blocks
  whose image was accepted. So a failed snapshot removes its own section and changes
  nothing else of what is written.
\<close>

theorem report_survives_capture_failures:
  assumes "result s = Some res"
  shows "\<exists>doc.
      generateReport env snap s =
        (s\<lparr>reportLoading := False\<rparr>,
         (case snap RiskChart of
            CaptureFailed e \<Rightarrow> [ConsoleError [S ''Failed to capture risk chart:'', Thrown e]]
          | Canvas i w h \<Rightarrow>
              (case addImage_error env i (imgWidth env) (imgHeight env w h) of
                 None \<Rightarrow> [] | Some e \<Rightarrow> [ConsoleError [S ''Failed to capture risk chart:'', Thrown e]]))
         @ (if ref_current s EcgChart
            then (case snap EcgChart of
                    CaptureFailed e \<Rightarrow> [ConsoleError [S ''Failed to capture ECG chart:'', Thrown e]]
                  | Canvas i w h \<Rightarrow>
                      (case addImage_error env i (imgWidth env) (imgHeight env w h) of
                         None \<Rightarrow> [] | Some e \<Rightarrow> [ConsoleError [S ''Failed to capture ECG chart:'', Thrown e]]))
            else [])
         @ (if ref_current s PcgChart
            then (case snap PcgChart of
                    CaptureFailed e \<Rightarrow> [ConsoleError [S ''Failed to capture PCG chart:'', Thrown e]]
                  | Canvas i w h \<Rightarrow>
                      (case addImage_error env i (imgWidth env) (imgHeight env w h) of
                         None \<Rightarrow> [] | Some e \<Rightarrow> [ConsoleError [S ''Failed to capture PCG chart:'', Thrown e]]))
            else [])
         @ (case pcg_spectrogram res of
              None \<Rightarrow> []
            | Some img \<Rightarrow>
                if img = [] then []
                else (case addImage_error env img (imgWidth env) (Finite 60) of
                        None \<Rightarrow> []
                      | Some e \<Rightarrow> [ConsoleError [S ''Failed to add spectrogram:'', Thrown e]])),
         Some (''SmartHeart_Report_'' @ isoDate env @ ''.pdf'', doc))
    \<and> (\<forall>e. snap RiskChart = CaptureFailed e \<longrightarrow>
          ConsoleError [S ''Failed to capture risk chart:'', Thrown e]
            \<in> set (fst (snd (generateReport env snap s))))
    \<and> (\<forall>e. ref_current s EcgChart \<and> snap EcgChart = CaptureFailed e \<longrightarrow>
          ConsoleError [S ''Failed to capture ECG chart:'', Thrown e]
            \<in> set (fst (snd (generateReport env snap s))))
    \<and> (\<forall>e. ref_current s PcgChart \<and> snap PcgChart = CaptureFailed e \<longrightarrow>
          ConsoleError [S ''Failed to capture PCG chart:'', Thrown e]
            \<in> set (fst (snd (generateReport env snap s))))
    \<and> section_headers doc =
        [''Risk Assessment Results'', ''Files Analyzed'']
        @ (case snap RiskChart of CaptureFailed e \<Rightarrow> [] | Canvas i w h \<Rightarrow> [''Risk Assessment Overview''])
        @ (if ref_current s EcgChart
           then (case snap EcgChart of CaptureFailed e \<Rightarrow> [] | Canvas i w h \<Rightarrow> [''ECG Signal Visualization''])
           else [])
        @ (if ref_current s PcgChart
           then (case snap PcgChart of CaptureFailed e \<Rightarrow> [] | Canvas i w h \<Rightarrow> [''PCG Waveform Visualization''])
           else [])
        @ (case pcg_spectrogram res of
             None \<Rightarrow> [] | Some img \<Rightarrow> if img = [] then [] else [''PCG Spectrogram''])
    \<and> map item_image (images doc) =
        (case snap RiskChart of
           CaptureFailed e \<Rightarrow> []
         | Canvas i w h \<Rightarrow>
             if addImage_error env i (imgWidth env) (imgHeight env w h) = None then [i] else [])
        @ (if ref_current s EcgChart
           then (case snap EcgChart of
                   CaptureFailed e \<Rightarrow> []
                 | Canvas i w h \<Rightarrow>
                     if addImage_error env i (imgWidth env) (imgHeight env w h) = None then [i] else [])
           else [])
        @ (if ref_current s PcgChart
           then (case snap PcgChart of
                   CaptureFailed e \<Rightarrow> []
                 | Canvas i w h \<Rightarrow>
                     if addImage_error env i (imgWidth env) (imgHeight env w h) = None then [i] else [])
           else [])
        @ (case pcg_spectrogram res of
             None \<Rightarrow> []
           | Some img \<Rightarrow>
               if img = [] then []
               else if addImage_error env img (imgWidth env) (Finite 60) = None then [img] else [])
    \<and> set ([''SmartHeart Analysis Report'',
             ''Bimodal Deep Learning for ECG and PCG-Based Cardiac Monitoring'',
             ''Report Generated: '' @ localeDate env @ '' at '' @ localeTime env,
             ''Risk Assessment Results'',
             ''ECG Risk: '', riskText (formatPercent env) (ecg_risk res),
             ''PCG Risk: '', riskText (formatPercent env) (pcg_risk res),
             ''Combined Risk: '', riskText (formatPercent env) (combined_risk res),
             ''Files Analyzed'']
            @ (case ecgFile s of None \<Rightarrow> [] | Some f \<Rightarrow> [''ECG File: '', file_name f])
            @ (case pcgFile s of None \<Rightarrow> [] | Some f \<Rightarrow> [''PCG File: '', file_name f]))
        \<subseteq> set (texts doc)
    \<and> pages doc \<noteq> []
    \<and> (\<forall>j<length (pages doc).
          TextItem ''SmartHeart - AI-powered multimodal cardiovascular risk assessment system | For research and educational purposes only''
            (num_div (pageWidth env) (Finite 2)) (Finite 290) AlignCenter 8 (150, 150, 150) False
            \<in> set (pages doc ! j)
        \<and> TextItem (''Page '' @ string_of_nat (Suc j) @ '' of '' @ string_of_nat (length (pages doc)))
            (num_sub (pageWidth env) margin) (Finite 290) AlignRight 8 (150, 150, 150) False
            \<in> set (pages doc ! j))
    \<and> (\<exists>layout.
          length (pages doc) = length (pages layout)
        \<and> (\<forall>j<length (pages doc).
              pages doc ! j = pages layout ! j @
                [TextItem ''SmartHeart - AI-powered multimodal cardiovascular risk assessment system | For research and educational purposes only''
                   (num_div (pageWidth env) (Finite 2)) (Finite 290) AlignCenter 8 (150, 150, 150) False,
                 TextItem (''Page '' @ string_of_nat (Suc j) @ '' of '' @ string_of_nat (length (pages doc)))
                   (num_sub (pageWidth env) margin) (Finite 290) AlignRight 8 (150, 150, 150) False])
        \<and> texts layout =
            [''SmartHeart Analysis Report'',
             ''Bimodal Deep Learning for ECG and PCG-Based Cardiac Monitoring'',
             ''Report Generated: '' @ localeDate env @ '' at '' @ localeTime env,
             ''Risk Assessment Results'',
             ''ECG Risk: '', riskText (formatPercent env) (ecg_risk res),
             ''PCG Risk: '', riskText (formatPercent env) (pcg_risk res),
             ''Combined Risk: '', riskText (formatPercent env) (combined_risk res),
             ''Files Analyzed'']
            @ (case ecgFile s of None \<Rightarrow> [] | Some f \<Rightarrow> [''ECG File: '', file_name f])
            @ (case pcgFile s of None \<Rightarrow> [] | Some f \<Rightarrow> [''PCG File: '', file_name f])
            @ (case snap RiskChart of CaptureFailed e \<Rightarrow> [] | Canvas i w h \<Rightarrow> [''Risk Assessment Overview''])
            @ (if ref_current s EcgChart
               then (case snap EcgChart of CaptureFailed e \<Rightarrow> [] | Canvas i w h \<Rightarrow> [''ECG Signal Visualization''])
               else [])
            @ (if ref_current s PcgChart
               then (case snap PcgChart of CaptureFailed e \<Rightarrow> [] | Canvas i w h \<Rightarrow> [''PCG Waveform Visualization''])
               else [])
            @ (case pcg_spectrogram res of
                 None \<Rightarrow> [] | Some img \<Rightarrow> if img = [] then [] else [''PCG Spectrogram'']))"
    (is "\<exists>doc. ?G doc \<and> ?M1 \<and> ?M2 \<and> ?M3 \<and> ?H doc \<and> ?I doc \<and> ?T doc \<and> ?N doc \<and> ?F doc
           \<and> (\<exists>layout. ?A doc layout \<and> ?B doc layout \<and> texts layout = ?EX)")
proof -
  from generateReport_document [OF assms, of env snap] obtain doc layout where
    g: "?G doc" and h: "?H doc" and i: "?I doc" and t: "?T doc" and n: "?N doc"
    and f0: "\<forall>j<length (pages doc).
          set (footer_items env False (Suc j) (length (pages doc))) \<subseteq> set (pages doc ! j)"
    and a: "?A doc layout"
    and b0: "\<forall>j<length (pages doc).
          pages doc ! j = pages layout ! j @ footer_items env False (Suc j) (length (pages doc))"
    and ex: "texts layout = ?EX"
    by blast
  have m1: ?M1 unfolding g by simp
  have m2: ?M2 unfolding g by simp
  have m3: ?M3 unfolding g by simp
  from f0 have f: "?F doc"
    by (simp add: footer_items_def)
  from b0 have b: "?B doc layout"
    by (simp add: footer_items_def)
  from a b ex have l: "\<exists>layout. ?A doc layout \<and> ?B doc layout \<and> texts layout = ?EX"
    by blast
  from g m1 m2 m3 h i t n f l show ?thesis
    by blast
qed

theorem report_survives_capture_failures_witness:
  "\<exists>doc. snd (snd (generateReport example_env
                     (\<lambda>c. case c of RiskChart \<Rightarrow> CaptureFailed NonError | _ \<Rightarrow> Canvas ''ecg.png'' 800 320)
                     (example_state (example_response\<lparr>ecg_plot_data := Some [(Finite 0, Finite 1)]\<rparr>))))
            = Some (''SmartHeart_Report_2026-11-03.pdf'', doc)
         \<and> section_headers doc
            = [''Risk Assessment Results'', ''Files Analyzed'', ''ECG Signal Visualization'']
         \<and> map item_image (images doc) = [''ecg.png'']
         \<and> fst (snd (generateReport example_env
                     (\<lambda>c. case c of RiskChart \<Rightarrow> CaptureFailed NonError | _ \<Rightarrow> Canvas ''ecg.png'' 800 320)
                     (example_state (example_response\<lparr>ecg_plot_data := Some [(Finite 0, Finite 1)]\<rparr>))))
            = [ConsoleError [S ''Failed to capture risk chart:'', Thrown NonError]]"
proof -
  have r: "result (example_state (example_response\<lparr>ecg_plot_data := Some [(Finite 0, Finite 1)]\<rparr>))
             = Some (example_response\<lparr>ecg_plot_data := Some [(Finite 0, Finite 1)]\<rparr>)"
    by (simp add: example_state_def)
  from report_survives_capture_failures [OF r, of example_env
      "\<lambda>c. case c of RiskChart \<Rightarrow> CaptureFailed NonError | _ \<Rightarrow> Canvas ''ecg.png'' 800 320"]
  obtain doc where
    "generateReport example_env
        (\<lambda>c. case c of RiskChart \<Rightarrow> CaptureFailed NonError | _ \<Rightarrow> Canvas ''ecg.png'' 800 320)
        (example_state (example_response\<lparr>ecg_plot_data := Some [(Finite 0, Finite 1)]\<rparr>))
       = (example_state (example_response\<lparr>ecg_plot_data := Some [(Finite 0, Finite 1)]\<rparr>)
            \<lparr>reportLoading := False\<rparr>,
          [ConsoleError [S ''Failed to capture risk chart:'', Thrown NonError]],
          Some (''SmartHeart_Report_2026-11-03.pdf'', doc))"
    "section_headers doc
       = [''Risk Assessment Results'', ''Files Analyzed'', ''ECG Signal Visualization'']"
    "map item_image (images doc) = [''ecg.png'']"
    by (auto simp add: example_state_def example_response_def example_env_def initial_state_def)
  then show ?thesis
    by simp
qed

text \<open>
  The third case at a concrete input: the risk chart is captured and \<open>addImage\<close>
  throws. The header "Risk Assessment Overview" is in the document, no image is, and
  the error is logged as a capture failure.
\<close>

lemma report_addImage_failure_keeps_header:
  "map_option (\<lambda>(name, doc). (section_headers doc, map item_image (images doc)))
     (snd (snd (generateReport (example_env\<lparr>addImage_error := (\<lambda>img w h. Some NonError)\<rparr>)
                  (\<lambda>c. Canvas ''risk.png'' 800 320) (example_state example_response))))
   = Some ([''Risk Assessment Results'', ''Files Analyzed'', ''Risk Assessment Overview''], [])
   \<and> fst (snd (generateReport (example_env\<lparr>addImage_error := (\<lambda>img w h. Some NonError)\<rparr>)
                  (\<lambda>c. Canvas ''risk.png'' 800 320) (example_state example_response)))
   = [ConsoleError [S ''Failed to capture risk chart:'', Thrown NonError]]"
proof -
  have r: "result (example_state example_response) = Some example_response"
    by (simp add: example_state_def)
  from generateReport_document [OF r, of "example_env\<lparr>addImage_error := (\<lambda>img w h. Some NonError)\<rparr>"
      "\<lambda>c. Canvas ''risk.png'' 800 320"]
  obtain doc where
    "generateReport (example_env\<lparr>addImage_error := (\<lambda>img w h. Some NonError)\<rparr>)
        (\<lambda>c. Canvas ''risk.png'' 800 320) (example_state example_response)
       = (example_state example_response\<lparr>reportLoading := False\<rparr>,
          [ConsoleError [S ''Failed to capture risk chart:'', Thrown NonError]],
          Some (''SmartHeart_Report_2026-11-03.pdf'', doc))"
    "section_headers doc
       = [''Risk Assessment Results'', ''Files Analyzed'', ''Risk Assessment Overview'']"
    "map item_image (images doc) = []"
    by (auto simp add: example_state_def example_response_def example_env_def initial_state_def)
  then show ?thesis
    by simp
qed

end
